theory Spec2Isabelle
  imports Complex_Main "HOL-Library.Sublist"
begin

section \<open>Python values\<close>

text \<open>
  The functions below follow \<^verbatim>\<open>src/stock_scraper/data_processor.py\<close> and
  \<^verbatim>\<open>src/stock_scraper/scraper.py\<close>; library behaviour (Python built-ins, the regular
  expressions used, pandas columns) is written out next to the function that uses it.

  A Python string is a sequence of Unicode code points. The cells of the data frames
  hold 8-bit text (type \<open>string\<close>, the code points below 256). Where the code treats
  code points beyond that range in a way of its own, namely in the class \<^verbatim>\<open>\d\<close> of its
  regular expressions and in \<^verbatim>\<open>float()\<close>, which both accept the decimal digits of every
  script, the function is given on sequences of code points (type \<open>unicode\<close>) as well.
\<close>

subsection \<open>Characters and strings\<close>

definition is_digit :: "char \<Rightarrow> bool" where
  "is_digit c = (c \<in> set ''0123456789'')"

definition is_space :: "char \<Rightarrow> bool" where
  \<comment> \<open>the white space of \<^verbatim>\<open>str.strip()\<close> and \<^verbatim>\<open>str.isspace()\<close> below code point 256:
      TAB, LF, VT, FF, CR, the separators FS, GS, RS, US, space, NEL and the no-break
      space\<close>
  "is_space c =
     (c \<in> set [CHR 0x09, CHR 0x0A, CHR 0x0B, CHR 0x0C, CHR 0x0D, CHR 0x1C, CHR 0x1D, CHR 0x1E,
                CHR 0x1F, CHR '' '', CHR 0x85, CHR 0xA0])"

definition is_ascii_space :: "char \<Rightarrow> bool" where
  \<comment> \<open>the white space that the number parser behind \<^verbatim>\<open>float()\<close> skips
      (\<^verbatim>\<open>Py_ISSPACE\<close>): TAB, LF, VT, FF, CR, space\<close>
  "is_ascii_space c = (c \<in> set [CHR 0x09, CHR 0x0A, CHR 0x0B, CHR 0x0C, CHR 0x0D, CHR '' ''])"

definition is_ascii :: "char \<Rightarrow> bool" where
  "is_ascii c = ((of_char c :: nat) < 128)"

definition digit_val :: "char \<Rightarrow> nat" where
  \<comment> \<open>position of a digit character in \<open>0123456789\<close>\<close>
  "digit_val c = length (takeWhile (\<lambda>d. d \<noteq> c) ''0123456789'')"

definition upper_char :: "char \<Rightarrow> char" where
  "upper_char c =
     (case map_of (zip ''abcdefghijklmnopqrstuvwxyz'' ''ABCDEFGHIJKLMNOPQRSTUVWXYZ'') c of
        Some u \<Rightarrow> u | None \<Rightarrow> c)"

definition lower_char :: "char \<Rightarrow> char" where
  "lower_char c =
     (case map_of (zip ''ABCDEFGHIJKLMNOPQRSTUVWXYZ'' ''abcdefghijklmnopqrstuvwxyz'') c of
        Some l \<Rightarrow> l | None \<Rightarrow> c)"

text \<open>
  \<^verbatim>\<open>str.upper()\<close> and \<^verbatim>\<open>str.lower()\<close> are given on the letters \<open>a\<close> to \<open>z\<close>. The code
  looks in the result only for the letters \<open>K\<close>, \<open>M\<close>, \<open>B\<close> and \<open>T\<close>, which the upper case
  of no other character below 256 contains, and hands the rest to \<^verbatim>\<open>float()\<close>, which
  refuses a letter beyond ASCII in either case.
\<close>

definition py_upper :: "string \<Rightarrow> string" where
  "py_upper s = map upper_char s"

definition py_lower :: "string \<Rightarrow> string" where
  "py_lower s = map lower_char s"

definition strip_by :: "(char \<Rightarrow> bool) \<Rightarrow> string \<Rightarrow> string" where
  "strip_by blank s = rev (dropWhile blank (rev (dropWhile blank s)))"

definition py_strip :: "string \<Rightarrow> string" where
  "py_strip s = strip_by is_space s"

text \<open>\<^verbatim>\<open>sub in s\<close> on strings: \<open>sub\<close> occurs somewhere in \<open>s\<close> as a contiguous block.\<close>

fun py_in :: "string \<Rightarrow> string \<Rightarrow> bool" where
  "py_in sub [] = (sub = [])"
| "py_in sub (c # cs) = (prefix sub (c # cs) \<or> py_in sub cs)"

text \<open>\<^verbatim>\<open>s.replace(old, '')\<close>: every non-overlapping occurrence of \<open>old\<close>, scanning from the
  left, is deleted. (An empty \<open>old\<close> inserts the empty replacement everywhere: no change.)\<close>

fun py_remove :: "string \<Rightarrow> string \<Rightarrow> string" where
  "py_remove old [] = []"
| "py_remove old (c # cs) =
     (if old \<noteq> [] \<and> prefix old (c # cs)
      then py_remove old (drop (length old) (c # cs))
      else c # py_remove old cs)"

text \<open>
  Text beyond 8 bits. The decimal digits of Unicode (category \<^verbatim>\<open>Nd\<close>, here of Unicode
  14) come in runs of ten code points, zero to nine; \<open>decimal_runs\<close> lists the first code
  point of each run. \<open>to_decimal\<close> is the digit value of a code point, if it has one
  (\<^verbatim>\<open>Py_UNICODE_TODECIMAL\<close>). In a pattern on \<^verbatim>\<open>str\<close> the class \<^verbatim>\<open>\d\<close> matches exactly the
  code points that have one (\<open>is_decimal\<close>).
\<close>

type_synonym unicode = "nat list"

definition decimal_runs :: "nat list" where
  "decimal_runs =
     [0x30, 0x660, 0x6F0, 0x7C0, 0x966, 0x9E6, 0xA66, 0xAE6, 0xB66, 0xBE6, 0xC66, 0xCE6,
      0xD66, 0xDE6, 0xE50, 0xED0, 0xF20, 0x1040, 0x1090, 0x17E0, 0x1810, 0x1946, 0x19D0,
      0x1A80, 0x1A90, 0x1B50, 0x1BB0, 0x1C40, 0x1C50, 0xA620, 0xA8D0, 0xA900, 0xA9D0,
      0xA9F0, 0xAA50, 0xABF0, 0xFF10, 0x104A0, 0x10D30, 0x11066, 0x110F0, 0x11136,
      0x111D0, 0x112F0, 0x11450, 0x114D0, 0x11650, 0x116C0, 0x11730, 0x118E0, 0x11950,
      0x11C50, 0x11D50, 0x11DA0, 0x16A60, 0x16AC0, 0x16B50, 0x1D7CE, 0x1D7D8, 0x1D7E2,
      0x1D7EC, 0x1D7F6, 0x1E140, 0x1E2F0, 0x1E950, 0x1FBF0]"

definition to_decimal :: "nat \<Rightarrow> nat option" where
  "to_decimal ch =
     map_option (\<lambda>zero. ch - zero) (find (\<lambda>zero. zero \<le> ch \<and> ch < zero + 10) decimal_runs)"

definition is_decimal :: "nat \<Rightarrow> bool" where
  "is_decimal ch = (to_decimal ch \<noteq> None)"

definition is_unicode_space :: "nat \<Rightarrow> bool" where
  \<comment> \<open>\<^verbatim>\<open>Py_UNICODE_ISSPACE\<close>\<close>
  "is_unicode_space ch =
     (ch \<in> set [0x9, 0xA, 0xB, 0xC, 0xD, 0x1C, 0x1D, 0x1E, 0x1F, 0x20, 0x85, 0xA0, 0x1680,
                0x2000, 0x2001, 0x2002, 0x2003, 0x2004, 0x2005, 0x2006, 0x2007, 0x2008,
                0x2009, 0x200A, 0x2028, 0x2029, 0x202F, 0x205F, 0x3000])"

subsection \<open>Floats\<close>

text \<open>
  A Python \<^verbatim>\<open>float\<close> (and a cell of a pandas \<^verbatim>\<open>float64\<close> column) is an IEEE 754
  binary64 value: a finite rational, negative zero, an infinity, or NaN. \<open>Fin 0\<close> is
  positive zero. Arithmetic rounds the exact result to the nearest double, ties to even
  (\<open>round_double\<close>).
\<close>

datatype pyfloat = Fin rat | NegZero | PInf | NInf | NaN

fun bit_length :: "nat \<Rightarrow> nat" where
  "bit_length n = (if n = 0 then 0 else Suc (bit_length (n div 2)))"

declare bit_length.simps [simp del]

definition pow2 :: "int \<Rightarrow> rat" where
  "pow2 k = (if 0 \<le> k then 2 ^ nat k else 1 / 2 ^ nat (- k))"

definition round_half_even :: "rat \<Rightarrow> int" where
  "round_half_even x =
     (let k = \<lfloor>x\<rfloor>; r = x - of_int k in
      if r < 1 / 2 then k
      else if 1 / 2 < r then k + 1
      else if even k then k else k + 1)"

definition floor_log2 :: "rat \<Rightarrow> int" where
  \<comment> \<open>for \<open>0 < q\<close>: the \<open>e\<close> with \<open>2\<^sup>e \<le> q < 2\<^sup>e\<^sup>+\<^sup>1\<close>\<close>
  "floor_log2 q =
     (if 1 \<le> q then int (bit_length (nat \<lfloor>q\<rfloor>)) - 1
      else - int (bit_length (nat (\<lceil>1 / q\<rceil> - 1))))"

definition round_pos :: "rat \<Rightarrow> rat" where
  \<comment> \<open>53 significant bits; below \<open>2\<^sup>-\<^sup>1\<^sup>0\<^sup>2\<^sup>2\<close> the spacing stays \<open>2\<^sup>-\<^sup>1\<^sup>0\<^sup>7\<^sup>4\<close> (subnormals)\<close>
  "round_pos q =
     (let e = max (floor_log2 q) (- 1022);
          u = pow2 (e - 52)
      in of_int (round_half_even (q / u)) * u)"

definition round_double :: "rat \<Rightarrow> pyfloat" where
  "round_double q =
     (if q = 0 then Fin 0
      else if 0 < q then
        (let r = round_pos q in
         if r = 0 then Fin 0 else if 2 ^ 1024 \<le> r then PInf else Fin r)
      else
        (let r = round_pos (- q) in
         if r = 0 then NegZero else if 2 ^ 1024 \<le> r then NInf else Fin (- r)))"

fun is_nan :: "pyfloat \<Rightarrow> bool" where
  "is_nan NaN = True"
| "is_nan _ = False"

fun is_inf :: "pyfloat \<Rightarrow> bool" where
  "is_inf PInf = True"
| "is_inf NInf = True"
| "is_inf _ = False"

fun is_zero :: "pyfloat \<Rightarrow> bool" where
  "is_zero (Fin q) = (q = 0)"
| "is_zero NegZero = True"
| "is_zero _ = False"

fun sign_bit :: "pyfloat \<Rightarrow> bool" where
  "sign_bit (Fin q) = (q < 0)"
| "sign_bit NegZero = True"
| "sign_bit NInf = True"
| "sign_bit _ = False"

fun fval :: "pyfloat \<Rightarrow> rat" where
  "fval (Fin q) = q"
| "fval _ = 0"

definition signed_zero :: "bool \<Rightarrow> pyfloat" where
  "signed_zero neg = (if neg then NegZero else Fin 0)"

definition signed_inf :: "bool \<Rightarrow> pyfloat" where
  "signed_inf neg = (if neg then NInf else PInf)"

fun fneg :: "pyfloat \<Rightarrow> pyfloat" where
  "fneg (Fin q) = (if q = 0 then NegZero else Fin (- q))"
| "fneg NegZero = Fin 0"
| "fneg PInf = NInf"
| "fneg NInf = PInf"
| "fneg NaN = NaN"

definition fadd :: "pyfloat \<Rightarrow> pyfloat \<Rightarrow> pyfloat" where
  "fadd a b =
     (if is_nan a \<or> is_nan b then NaN
      else if is_inf a then (if is_inf b \<and> a \<noteq> b then NaN else a)
      else if is_inf b then b
      else if fval a + fval b = 0 then (if a = NegZero \<and> b = NegZero then NegZero else Fin 0)
      else round_double (fval a + fval b))"

definition fsub :: "pyfloat \<Rightarrow> pyfloat \<Rightarrow> pyfloat" where
  "fsub a b = fadd a (fneg b)"

definition fmul :: "pyfloat \<Rightarrow> pyfloat \<Rightarrow> pyfloat" where
  "fmul a b =
     (if is_nan a \<or> is_nan b then NaN
      else if is_inf a \<or> is_inf b then
        (if is_zero a \<or> is_zero b then NaN else signed_inf (sign_bit a \<noteq> sign_bit b))
      else if is_zero a \<or> is_zero b then signed_zero (sign_bit a \<noteq> sign_bit b)
      else round_double (fval a * fval b))"

definition fdiv :: "pyfloat \<Rightarrow> pyfloat \<Rightarrow> pyfloat" where
  \<comment> \<open>numpy's float64 division, as pandas applies it to columns: a nonzero number
      divided by zero is an infinity, \<open>0 / 0\<close> is NaN; nothing is raised\<close>
  "fdiv a b =
     (if is_nan a \<or> is_nan b then NaN
      else if is_inf a then (if is_inf b then NaN else signed_inf (sign_bit a \<noteq> sign_bit b))
      else if is_inf b then signed_zero (sign_bit a \<noteq> sign_bit b)
      else if is_zero b then
        (if is_zero a then NaN else signed_inf (sign_bit a \<noteq> sign_bit b))
      else if is_zero a then signed_zero (sign_bit a \<noteq> sign_bit b)
      else round_double (fval a / fval b))"

subsection \<open>Cells and exceptions\<close>

text \<open>
  The values a cell or a function argument can hold here: \<^verbatim>\<open>None\<close>, a float, an
  integer, a string, a timestamp. \<^verbatim>\<open>pd.isna\<close> is true of \<^verbatim>\<open>None\<close> and of a NaN float.
\<close>

datatype pyval = PNone | PFloat pyfloat | PInt int | PStr string | PTime nat

datatype py_error = ValueError | OverflowError | TypeError | KeyError | OtherError string

fun pd_isna :: "pyval \<Rightarrow> bool" where
  "pd_isna PNone = True"
| "pd_isna (PFloat f) = is_nan f"
| "pd_isna _ = False"

definition bind_err :: "py_error + 'a \<Rightarrow> ('a \<Rightarrow> py_error + 'b) \<Rightarrow> py_error + 'b" where
  "bind_err r f = (case r of Inl e \<Rightarrow> Inl e | Inr x \<Rightarrow> f x)"

definition except_ValueError :: "py_error + 'a \<Rightarrow> py_error + 'a option" where
  \<comment> \<open>\<^verbatim>\<open>try: return body\<close> / \<^verbatim>\<open>except ValueError: return None\<close>: any other
      exception leaves the function\<close>
  "except_ValueError r =
     (case r of Inl ValueError \<Rightarrow> Inr None | Inl e \<Rightarrow> Inl e | Inr x \<Rightarrow> Inr (Some x))"

subsection \<open>Conversions between strings, floats and integers\<close>

text \<open>
  \<^verbatim>\<open>float(s)\<close> for a string, as CPython does it. A text that is not all ASCII is first
  rewritten (\<open>transform_decimal_and_space\<close>): a code point below 127 stays, white space
  becomes a space, a decimal digit becomes the ASCII digit of its value, and at the
  first code point that is none of these the text is cut off with a question mark. The
  number parser (\<open>float_from_string\<close>) then drops ASCII white space around the text; the
  text is an optional sign followed by \<^verbatim>\<open>inf\<close>, \<^verbatim>\<open>infinity\<close> or \<^verbatim>\<open>nan\<close> in any letter
  case, or by a decimal number with an optional fraction and an optional exponent.
  Single underscores may stand between digits. Anything else raises \<^verbatim>\<open>ValueError\<close>.
  The decimal value is rounded to the nearest double.
\<close>

fun underscores_ok :: "char \<Rightarrow> string \<Rightarrow> bool" where
  "underscores_ok prev [] = (prev \<noteq> CHR ''_'')"
| "underscores_ok prev (c # cs) =
     ((if c = CHR ''_'' then is_digit prev else \<not> (prev = CHR ''_'' \<and> \<not> is_digit c))
      \<and> underscores_ok c cs)"

definition digits_val :: "string \<Rightarrow> nat" where
  "digits_val ds = foldl (\<lambda>a c. 10 * a + digit_val c) 0 ds"

definition pow10 :: "int \<Rightarrow> rat" where
  "pow10 k = (if 0 \<le> k then 10 ^ nat k else 1 / 10 ^ nat (- k))"

definition split_sign :: "string \<Rightarrow> bool \<times> string" where
  "split_sign s =
     (case s of
        [] \<Rightarrow> (False, [])
      | c # r \<Rightarrow> if c = CHR ''-'' then (True, r) else if c = CHR ''+'' then (False, r)
                 else (False, s))"

definition parse_exponent :: "string \<Rightarrow> int option" where
  "parse_exponent s =
     (case s of
        [] \<Rightarrow> Some 0
      | c # r \<Rightarrow>
          if c = CHR ''e'' \<or> c = CHR ''E'' then
            (let (neg, ds) = split_sign r in
             if ds \<noteq> [] \<and> list_all is_digit ds
             then Some (if neg then - int (digits_val ds) else int (digits_val ds))
             else None)
          else None)"

definition parse_decimal :: "string \<Rightarrow> rat option" where
  "parse_decimal s =
     (let ip = takeWhile is_digit s;
          r1 = dropWhile is_digit s;
          dot = (r1 \<noteq> [] \<and> hd r1 = CHR ''.'');
          fp = (if dot then takeWhile is_digit (tl r1) else []);
          r2 = (if dot then dropWhile is_digit (tl r1) else r1)
      in if ip = [] \<and> fp = [] then None
         else case parse_exponent r2 of
                None \<Rightarrow> None
              | Some e \<Rightarrow> Some (of_nat (digits_val (ip @ fp)) * pow10 (e - int (length fp))))"

definition py_float_inner :: "string \<Rightarrow> py_error + pyfloat" where
  "py_float_inner s =
     (let (neg, body) = split_sign (strip_by is_ascii_space s) in
      if py_lower body = ''inf'' \<or> py_lower body = ''infinity'' then Inr (signed_inf neg)
      else if py_lower body = ''nan'' then Inr NaN
      else case parse_decimal body of
             None \<Rightarrow> Inl ValueError
           | Some m \<Rightarrow>
               Inr (if m = 0 then signed_zero neg else round_double (if neg then - m else m)))"

definition float_from_string :: "string \<Rightarrow> py_error + pyfloat" where
  "float_from_string s =
     (if CHR ''_'' \<in> set s then
        (if underscores_ok (CHR 0x00) s then py_float_inner (filter (\<lambda>c. c \<noteq> CHR ''_'') s)
         else Inl ValueError)
      else py_float_inner s)"

fun transform_loop :: "unicode \<Rightarrow> string" where
  "transform_loop [] = []"
| "transform_loop (ch # rest) =
     (if ch < 127 then char_of ch # transform_loop rest
      else if is_unicode_space ch then CHR '' '' # transform_loop rest
      else case to_decimal ch of
             None \<Rightarrow> ''?''
           | Some d \<Rightarrow> (''0123456789'' ! d) # transform_loop rest)"

definition transform_decimal_and_space :: "unicode \<Rightarrow> string" where
  "transform_decimal_and_space t =
     (if list_all (\<lambda>ch. ch < 128) t then map char_of t else transform_loop t)"

definition py_float_text :: "unicode \<Rightarrow> py_error + pyfloat" where
  \<comment> \<open>\<^verbatim>\<open>float(t)\<close> for a text of code points\<close>
  "py_float_text t = float_from_string (transform_decimal_and_space t)"

definition py_float :: "string \<Rightarrow> py_error + pyfloat" where
  \<comment> \<open>\<^verbatim>\<open>float(s)\<close> for an 8-bit text\<close>
  "py_float s = py_float_text (map of_char s)"

definition float_of_int :: "int \<Rightarrow> py_error + pyfloat" where
  \<comment> \<open>\<^verbatim>\<open>float(i)\<close>: an integer too large for a double raises \<^verbatim>\<open>OverflowError\<close>\<close>
  "float_of_int i =
     (let f = round_double (of_int i) in if is_inf f then Inl OverflowError else Inr f)"

fun int_of_float :: "pyfloat \<Rightarrow> py_error + int" where
  \<comment> \<open>\<^verbatim>\<open>int(x)\<close>: truncation toward zero\<close>
  "int_of_float (Fin q) = Inr (if 0 \<le> q then \<lfloor>q\<rfloor> else \<lceil>q\<rceil>)"
| "int_of_float NegZero = Inr 0"
| "int_of_float NaN = Inl ValueError"
| "int_of_float _ = Inl OverflowError"

section \<open>Cleaning single values\<close>

text \<open>
  \<^verbatim>\<open>clean_numeric_value\<close>. \<open>clean_numeric_text\<close> is its branch for a string, on a text of
  code points: \<^verbatim>\<open>re.sub(r'[^\d.-]', '', value)\<close> keeps the decimal digits of every script,
  the full stop (code point 46) and the hyphen (45); \<^verbatim>\<open>float\<close> is called when something
  is left, and its \<^verbatim>\<open>ValueError\<close> gives \<^verbatim>\<open>None\<close>.
\<close>

definition clean_numeric_text :: "unicode \<Rightarrow> py_error + pyfloat option" where
  "clean_numeric_text t =
     (let cleaned = filter (\<lambda>ch. is_decimal ch \<or> ch = 46 \<or> ch = 45) t in
      if cleaned \<noteq> [] then except_ValueError (py_float_text cleaned) else Inr None)"

definition clean_numeric_value :: "pyval \<Rightarrow> py_error + pyfloat option" where
  "clean_numeric_value v =
     (if pd_isna v then Inr None
      else case v of
        PInt i \<Rightarrow> bind_err (float_of_int i) (\<lambda>f. Inr (Some f))
      | PFloat f \<Rightarrow> Inr (Some f)
      | PStr s \<Rightarrow> clean_numeric_text (map of_char s)
      | _ \<Rightarrow> Inr None)"

text \<open>
  For comparison, the reading of a text in the words of the specification: every
  character outside \<^verbatim>\<open>[0-9.-]\<close> is stripped and the rest is read as a float; the result
  is null when nothing is left or the rest cannot be read.
\<close>

definition spec_clean_numeric :: "unicode \<Rightarrow> pyfloat option" where
  "spec_clean_numeric t =
     (let kept = filter (\<lambda>ch. ch \<in> set (map of_char ''0123456789.-'')) t in
      if kept = [] then None
      else case py_float_text kept of Inr f \<Rightarrow> Some f | Inl e \<Rightarrow> None)"

text \<open>
  \<^verbatim>\<open>clean_volume_value\<close>. The dictionary \<^verbatim>\<open>multipliers\<close> is iterated in the order it is
  written. The loop returns from the function at the first suffix found in the text
  (\<open>Some\<close> of the function's outcome) or runs through (\<open>None\<close>). In
  \<^verbatim>\<open>number * multiplier\<close> the integer multiplier is converted to a float first, which is
  exact for the three multipliers. On 8-bit text the class \<^verbatim>\<open>\d\<close> of the pattern
  \<^verbatim>\<open>[^\d.]\<close> holds the digits \<open>0\<close> to \<open>9\<close> only.
\<close>

definition multipliers :: "(string \<times> int) list" where
  "multipliers = [(''K'', 1000), (''M'', 1000000), (''B'', 1000000000)]"

fun suffix_loop :: "(string \<times> int) list \<Rightarrow> string \<Rightarrow> (py_error + int option) option" where
  "suffix_loop [] value_upper = None"
| "suffix_loop ((sfx, multiplier) # rest) value_upper =
     (if py_in sfx value_upper then
        Some (except_ValueError
                (bind_err (py_float (py_remove sfx value_upper))
                   (\<lambda>number. int_of_float (fmul number (Fin (of_int multiplier))))))
      else suffix_loop rest value_upper)"

definition clean_volume_value :: "pyval \<Rightarrow> py_error + int option" where
  "clean_volume_value v =
     (if pd_isna v then Inr None
      else case v of
        PInt i \<Rightarrow> Inr (Some i)
      | PFloat f \<Rightarrow> bind_err (int_of_float f) (\<lambda>i. Inr (Some i))
      | PStr s \<Rightarrow>
          (let value_upper = py_remove '','' (py_upper s) in
           case suffix_loop multipliers value_upper of
             Some outcome \<Rightarrow> outcome
           | None \<Rightarrow>
               except_ValueError
                 (bind_err (py_float (filter (\<lambda>c. is_digit c \<or> c = CHR ''.'') s))
                    int_of_float))
      | _ \<Rightarrow> Inr None)"

text \<open>
  For comparison, the reading of a text without suffix in the words of the
  specification: every character that is not a digit is dropped and the rest is read
  as an integer; nothing is left to read when no digit remains.
\<close>

definition spec_plain_volume :: "string \<Rightarrow> int option" where
  "spec_plain_volume s =
     (let ds = filter is_digit s in if ds = [] then None else Some (int (digits_val ds)))"

text \<open>
  \<^verbatim>\<open>clean_market_cap_value\<close> and \<^verbatim>\<open>clean_company_name\<close>. What \<^verbatim>\<open>str(value)\<close> prints
  for a value that is not a string is a parameter \<open>py_str\<close>. The substitution
  \<^verbatim>\<open>re.sub(r'\([^)]*\)', '', name)\<close> deletes, from the left, every opening parenthesis
  together with the text up to and including the next closing one.
\<close>

definition clean_market_cap_value :: "(pyval \<Rightarrow> string) \<Rightarrow> pyval \<Rightarrow> string option" where
  "clean_market_cap_value py_str v =
     (if pd_isna v then None
      else case v of PStr s \<Rightarrow> Some (py_strip s) | _ \<Rightarrow> Some (py_str v))"

function remove_parens :: "string \<Rightarrow> string" where
  "remove_parens [] = []"
| "remove_parens (c # cs) =
     (if c = CHR ''('' \<and> CHR '')'' \<in> set cs
      then remove_parens (tl (dropWhile (\<lambda>d. d \<noteq> CHR '')'') cs))
      else c # remove_parens cs)"
  by pat_completeness auto
termination
proof (relation "measure length")
  fix c :: char and cs :: string
  have "length (tl (dropWhile (\<lambda>d. d \<noteq> CHR '')'') cs)) \<le> length cs"
    by (simp add: le_trans [OF diff_le_self length_dropWhile_le])
  then show "(tl (dropWhile (\<lambda>d. d \<noteq> CHR '')'') cs), c # cs) \<in> measure length"
    by simp
qed simp_all

definition clean_company_name :: "(pyval \<Rightarrow> string) \<Rightarrow> pyval \<Rightarrow> string option" where
  "clean_company_name py_str v =
     (if pd_isna v then None
      else case v of
        PStr s \<Rightarrow> Some (py_strip (remove_parens (py_strip s)))
      | _ \<Rightarrow> Some (py_str v))"

section \<open>Data frames\<close>

text \<open>
  A pandas column has a dtype, and the code depends on it (\<^verbatim>\<open>select_dtypes\<close>), so a
  column is a list of cells tagged with its dtype: \<^verbatim>\<open>float64\<close> (NaN is the null),
  \<^verbatim>\<open>int64\<close> (no null; the code builds one from integers of 64 bits only), the nullable \<^verbatim>\<open>Int64\<close>,
  \<^verbatim>\<open>object\<close>, and \<^verbatim>\<open>datetime64\<close> (\<open>None\<close> is \<^verbatim>\<open>NaT\<close>). A data frame is the list of its
  row labels and the list of its named columns, in order. In a well-formed frame every
  column is as long as the index.
\<close>

datatype column =
    FloatCol "pyfloat list"
  | IntCol "int list"
  | NullIntCol "int option list"
  | ObjCol "pyval list"
  | TimeCol "nat option list"

record dataframe =
  df_index :: "nat list"
  df_columns :: "(string \<times> column) list"

fun col_cells :: "column \<Rightarrow> pyval list" where
  "col_cells (FloatCol xs) = map PFloat xs"
| "col_cells (IntCol xs) = map PInt xs"
| "col_cells (NullIntCol xs) = map (\<lambda>x. case x of None \<Rightarrow> PNone | Some i \<Rightarrow> PInt i) xs"
| "col_cells (ObjCol xs) = xs"
| "col_cells (TimeCol xs) = map (\<lambda>x. case x of None \<Rightarrow> PNone | Some t \<Rightarrow> PTime t) xs"

definition col_len :: "column \<Rightarrow> nat" where
  "col_len c = length (col_cells c)"

definition col_isna :: "column \<Rightarrow> bool list" where
  "col_isna c = map pd_isna (col_cells c)"

definition keep_rows :: "bool list \<Rightarrow> 'a list \<Rightarrow> 'a list" where
  "keep_rows flags xs = map snd (filter fst (zip flags xs))"

fun col_keep_rows :: "bool list \<Rightarrow> column \<Rightarrow> column" where
  "col_keep_rows flags (FloatCol xs) = FloatCol (keep_rows flags xs)"
| "col_keep_rows flags (IntCol xs) = IntCol (keep_rows flags xs)"
| "col_keep_rows flags (NullIntCol xs) = NullIntCol (keep_rows flags xs)"
| "col_keep_rows flags (ObjCol xs) = ObjCol (keep_rows flags xs)"
| "col_keep_rows flags (TimeCol xs) = TimeCol (keep_rows flags xs)"

definition wf_df :: "dataframe \<Rightarrow> bool" where
  "wf_df df = list_all (\<lambda>nc. col_len (snd nc) = length (df_index df)) (df_columns df)"

definition get_col :: "string \<Rightarrow> dataframe \<Rightarrow> column option" where
  "get_col name df = map_of (df_columns df) name"

text \<open>\<^verbatim>\<open>df[name] = c\<close>: an existing column is replaced in place, a new one is appended.\<close>

definition set_col :: "string \<Rightarrow> column \<Rightarrow> dataframe \<Rightarrow> dataframe" where
  "set_col name c df =
     df\<lparr>df_columns :=
          (if name \<in> set (map fst (df_columns df))
           then map (\<lambda>nc. if fst nc = name then (name, c) else nc) (df_columns df)
           else df_columns df @ [(name, c)])\<rparr>"

text \<open>\<^verbatim>\<open>df[flags]\<close> with a boolean series: the rows at the positions marked true.\<close>

definition select_rows :: "bool list \<Rightarrow> dataframe \<Rightarrow> dataframe" where
  "select_rows flags df =
     \<lparr>df_index = keep_rows flags (df_index df),
      df_columns = map (\<lambda>nc. (fst nc, col_keep_rows flags (snd nc))) (df_columns df)\<rparr>"

text \<open>
  \<^verbatim>\<open>Series.apply(f)\<close> calls \<open>f\<close> on the cells in order; an exception of \<open>f\<close> leaves
  \<^verbatim>\<open>apply\<close>. The dtype of the result is inferred from the values returned: all \<^verbatim>\<open>None\<close>
  stays \<^verbatim>\<open>object\<close>; numbers, with \<^verbatim>\<open>None\<close> read as NaN, are \<^verbatim>\<open>float64\<close>, or \<^verbatim>\<open>int64\<close> when
  all are integers; anything else is \<^verbatim>\<open>object\<close>, and so is a column with an integer
  that does not fit 64 bits (numpy's unsigned 64-bit dtype is not modelled). On a column
  without rows \<^verbatim>\<open>apply\<close> returns the column as it is.
\<close>

definition fits_int64 :: "int \<Rightarrow> bool" where
  "fits_int64 i = (- (2 ^ 63) \<le> i \<and> i < 2 ^ 63)"

fun map_err :: "('a \<Rightarrow> py_error + 'b) \<Rightarrow> 'a list \<Rightarrow> py_error + 'b list" where
  "map_err f [] = Inr []"
| "map_err f (x # xs) =
     (case f x of
        Inl e \<Rightarrow> Inl e
      | Inr y \<Rightarrow> (case map_err f xs of Inl e \<Rightarrow> Inl e | Inr ys \<Rightarrow> Inr (y # ys)))"

fun is_number_or_none :: "pyval \<Rightarrow> bool" where
  "is_number_or_none PNone = True"
| "is_number_or_none (PFloat f) = True"
| "is_number_or_none (PInt i) = True"
| "is_number_or_none _ = False"

fun is_int_cell :: "pyval \<Rightarrow> bool" where
  "is_int_cell (PInt i) = True"
| "is_int_cell _ = False"

fun is_int64_cell :: "pyval \<Rightarrow> bool" where
  "is_int64_cell (PInt i) = fits_int64 i"
| "is_int64_cell _ = False"

fun is_number64_or_none :: "pyval \<Rightarrow> bool" where
  "is_number64_or_none PNone = True"
| "is_number64_or_none (PFloat f) = True"
| "is_number64_or_none (PInt i) = fits_int64 i"
| "is_number64_or_none _ = False"

fun cell_float :: "pyval \<Rightarrow> pyfloat" where
  "cell_float (PFloat f) = f"
| "cell_float (PInt i) = round_double (of_int i)"
| "cell_float _ = NaN"

fun cell_int :: "pyval \<Rightarrow> int" where
  "cell_int (PInt i) = i"
| "cell_int _ = 0"

definition infer_column :: "pyval list \<Rightarrow> column" where
  "infer_column vs =
     (if list_all (\<lambda>v. v = PNone) vs then ObjCol vs
      else if list_all is_int64_cell vs then IntCol (map cell_int vs)
      else if list_all is_number64_or_none vs then FloatCol (map cell_float vs)
      else ObjCol vs)"

definition col_apply :: "(pyval \<Rightarrow> py_error + pyval) \<Rightarrow> column \<Rightarrow> py_error + column" where
  "col_apply f c =
     (if col_cells c = [] then Inr c
      else bind_err (map_err f (col_cells c)) (\<lambda>vs. Inr (infer_column vs)))"

definition apply_in ::
  "string \<Rightarrow> (pyval \<Rightarrow> py_error + pyval) \<Rightarrow> dataframe \<Rightarrow> py_error + dataframe" where
  \<comment> \<open>\<^verbatim>\<open>if name in df.columns: df[name] = df[name].apply(f)\<close>\<close>
  "apply_in name f df =
     (case get_col name df of
        None \<Rightarrow> Inr df
      | Some c \<Rightarrow> bind_err (col_apply f c) (\<lambda>c'. Inr (set_col name c' df)))"

fun apply_in_all ::
  "string list \<Rightarrow> (pyval \<Rightarrow> py_error + pyval) \<Rightarrow> dataframe \<Rightarrow> py_error + dataframe" where
  "apply_in_all [] f df = Inr df"
| "apply_in_all (name # names) f df = bind_err (apply_in name f df) (apply_in_all names f)"

section \<open>The processing steps\<close>

definition numeric_columns :: "string list" where
  "numeric_columns =
     [''current_price'', ''change'', ''change_percent'', ''previous_close'', ''open'',
      ''day_low'', ''day_high'', ''week_52_low'', ''week_52_high'', ''pe_ratio'', ''eps'']"

definition opt_cell :: "('a \<Rightarrow> pyval) \<Rightarrow> 'a option \<Rightarrow> pyval" where
  "opt_cell wrap r = (case r of None \<Rightarrow> PNone | Some x \<Rightarrow> wrap x)"

definition numeric_cell :: "pyval \<Rightarrow> py_error + pyval" where
  "numeric_cell v = bind_err (clean_numeric_value v) (\<lambda>r. Inr (opt_cell PFloat r))"

definition volume_cell :: "pyval \<Rightarrow> py_error + pyval" where
  "volume_cell v = bind_err (clean_volume_value v) (\<lambda>r. Inr (opt_cell PInt r))"

definition market_cap_cell :: "(pyval \<Rightarrow> string) \<Rightarrow> pyval \<Rightarrow> py_error + pyval" where
  "market_cap_cell py_str v = Inr (opt_cell PStr (clean_market_cap_value py_str v))"

definition company_name_cell :: "(pyval \<Rightarrow> string) \<Rightarrow> pyval \<Rightarrow> py_error + pyval" where
  "company_name_cell py_str v = Inr (opt_cell PStr (clean_company_name py_str v))"

definition drop_error_rows :: "dataframe \<Rightarrow> dataframe" where
  \<comment> \<open>\<^verbatim>\<open>if 'error' in df.columns: df = df[df['error'].isna()]\<close>\<close>
  "drop_error_rows df =
     (case get_col ''error'' df of
        Some e \<Rightarrow> select_rows (col_isna e) df
      | None \<Rightarrow> df)"

definition clean_data :: "(pyval \<Rightarrow> string) \<Rightarrow> dataframe \<Rightarrow> py_error + dataframe" where
  "clean_data py_str df =
     bind_err (apply_in_all numeric_columns numeric_cell (drop_error_rows df))
       (\<lambda>df1. bind_err (apply_in ''volume'' volume_cell df1)
       (\<lambda>df2. bind_err (apply_in ''market_cap'' (market_cap_cell py_str) df2)
       (\<lambda>df3. apply_in ''company_name'' (company_name_cell py_str) df3)))"

subsection \<open>\<^verbatim>\<open>standardize_formats\<close>\<close>

text \<open>
  Library behaviour that the code passes through but that the properties below do not
  depend on is a parameter: what \<^verbatim>\<open>str\<close> prints, how \<^verbatim>\<open>pd.to_datetime\<close> reads a cell
  that is not yet a time stamp (it may raise), what \<^verbatim>\<open>pd.to_numeric(errors='coerce')\<close>
  makes of an \<^verbatim>\<open>object\<close> column that holds something other than numbers and nulls, the
  clock, column arithmetic on operands that are not all \<^verbatim>\<open>float64\<close>, and the file
  system.
\<close>

record library =
  lib_str :: "pyval \<Rightarrow> string"
  lib_to_datetime :: "pyval \<Rightarrow> py_error + nat option"
  lib_to_numeric :: "pyval \<Rightarrow> pyval"
  lib_now :: nat
  lib_ratio :: "column \<Rightarrow> column \<Rightarrow> column \<Rightarrow> py_error + column"
  lib_read_csv :: "string \<Rightarrow> py_error + dataframe"

definition to_datetime :: "(pyval \<Rightarrow> py_error + nat option) \<Rightarrow> column \<Rightarrow> py_error + column" where
  "to_datetime parse c =
     (case c of
        TimeCol ts \<Rightarrow> Inr c
      | _ \<Rightarrow> bind_err (map_err parse (col_cells c)) (\<lambda>ts. Inr (TimeCol ts)))"

definition numeric_cells :: "pyval list \<Rightarrow> column" where
  \<comment> \<open>\<^verbatim>\<open>int64\<close> when every cell is an integer of 64 bits, else \<^verbatim>\<open>float64\<close> with NaN for
      a cell that is not a number\<close>
  "numeric_cells vs =
     (if list_all is_int64_cell vs then IntCol (map cell_int vs)
      else FloatCol (map cell_float vs))"

definition to_numeric :: "(pyval \<Rightarrow> pyval) \<Rightarrow> column \<Rightarrow> column" where
  \<comment> \<open>with \<^verbatim>\<open>errors='coerce'\<close> nothing is raised; a numeric column is returned as it
      is; \<open>coerce\<close> reads a cell that is neither a number nor null\<close>
  "to_numeric coerce c =
     (case c of
        ObjCol vs \<Rightarrow> numeric_cells (map (\<lambda>v. if is_number_or_none v then v else coerce v) vs)
      | TimeCol ts \<Rightarrow> numeric_cells (map coerce (col_cells c))
      | _ \<Rightarrow> c)"

fun is_integral :: "pyfloat \<Rightarrow> bool" where
  "is_integral (Fin q) = (of_int \<lfloor>q\<rfloor> = q)"
| "is_integral NegZero = True"
| "is_integral _ = False"

text \<open>
  \<^verbatim>\<open>astype('Int64')\<close>. A float column converts only when every value is NaN or a whole
  number from \<open>-2\<^sup>6\<^sup>3\<close> up to, but not including, \<open>2\<^sup>6\<^sup>3\<close>; otherwise pandas raises
  \<^verbatim>\<open>TypeError\<close>. Before that it converts the largest value that is not NaN with
  \<^verbatim>\<open>int\<close>, which raises \<^verbatim>\<open>OverflowError\<close> when that value is an infinity.
\<close>

definition largest_is_inf :: "pyfloat list \<Rightarrow> bool" where
  "largest_is_inf xs =
     (let vals = filter (\<lambda>x. \<not> is_nan x) xs in
      vals \<noteq> [] \<and> (PInf \<in> set vals \<or> list_all (\<lambda>x. x = NInf) vals))"

definition astype_Int64 :: "column \<Rightarrow> py_error + column" where
  "astype_Int64 c =
     (case c of
        IntCol xs \<Rightarrow> Inr (NullIntCol (map Some xs))
      | NullIntCol xs \<Rightarrow> Inr c
      | FloatCol xs \<Rightarrow>
          if largest_is_inf xs then Inl OverflowError
          else if list_all (\<lambda>x. is_nan x \<or> (is_integral x \<and> fits_int64 \<lfloor>fval x\<rfloor>)) xs
          then Inr (NullIntCol (map (\<lambda>x. if is_nan x then None else Some \<lfloor>fval x\<rfloor>) xs))
          else Inl TypeError
      | _ \<Rightarrow> Inl TypeError)"

definition numeric_in :: "(pyval \<Rightarrow> pyval) \<Rightarrow> string \<Rightarrow> dataframe \<Rightarrow> dataframe" where
  \<comment> \<open>\<^verbatim>\<open>if col in df.columns: df[col] = pd.to_numeric(df[col], errors='coerce')\<close>\<close>
  "numeric_in coerce name df =
     (case get_col name df of
        None \<Rightarrow> df
      | Some c \<Rightarrow> set_col name (to_numeric coerce c) df)"

definition standardize_formats :: "library \<Rightarrow> dataframe \<Rightarrow> py_error + dataframe" where
  "standardize_formats lib df =
     bind_err
       (case get_col ''timestamp'' df of
          None \<Rightarrow> Inr df
        | Some c \<Rightarrow>
            bind_err (to_datetime (lib_to_datetime lib) c) (\<lambda>c'. Inr (set_col ''timestamp'' c' df)))
       (\<lambda>df1.
          let df2 = fold (numeric_in (lib_to_numeric lib)) numeric_columns df1 in
          bind_err
            (case get_col ''volume'' df2 of
               None \<Rightarrow> Inr df2
             | Some c \<Rightarrow>
                 bind_err (astype_Int64 (to_numeric (lib_to_numeric lib) c))
                   (\<lambda>c'. Inr (set_col ''volume'' c' df2)))
            (\<lambda>df3.
               Inr (set_col ''processed_at''
                      (TimeCol (replicate (length (df_index df3)) (Some (lib_now lib)))) df3)))"

subsection \<open>\<^verbatim>\<open>handle_missing_values\<close>\<close>

text \<open>
  \<^verbatim>\<open>fillna(method='ffill')\<close>: going down the column, a null cell takes the last value
  seen that is not null; while none has been seen it stays null.
\<close>

fun ffill :: "('a \<Rightarrow> bool) \<Rightarrow> 'a option \<Rightarrow> 'a list \<Rightarrow> 'a list" where
  "ffill isnull seen [] = []"
| "ffill isnull seen (x # xs) =
     (if isnull x then (case seen of None \<Rightarrow> x | Some v \<Rightarrow> v) # ffill isnull seen xs
      else x # ffill isnull (Some x) xs)"

fun col_ffill :: "column \<Rightarrow> column" where
  "col_ffill (FloatCol xs) = FloatCol (ffill is_nan None xs)"
| "col_ffill (NullIntCol xs) = NullIntCol (ffill (\<lambda>x. x = None) None xs)"
| "col_ffill c = c"

fun col_fillna_zero :: "column \<Rightarrow> column" where
  "col_fillna_zero (FloatCol xs) = FloatCol (map (\<lambda>x. if is_nan x then Fin 0 else x) xs)"
| "col_fillna_zero (NullIntCol xs) =
     NullIntCol (map (\<lambda>x. case x of None \<Rightarrow> Some 0 | Some i \<Rightarrow> Some i) xs)"
| "col_fillna_zero c = c"

text \<open>
  The median skips nulls: the middle of the sorted values, or the mean of the two
  middle ones; NaN when there is no value. Filling with NaN changes nothing. A nullable
  integer column takes only a whole number.
\<close>

fun sort_key_float :: "pyfloat \<Rightarrow> rat" where
  "sort_key_float (Fin q) = q"
| "sort_key_float PInf = 2 ^ 1024"
| "sort_key_float NInf = - (2 ^ 1024)"
| "sort_key_float _ = 0"

definition median :: "pyfloat list \<Rightarrow> pyfloat" where
  "median xs =
     (let ys = sort_key sort_key_float (filter (\<lambda>x. \<not> is_nan x) xs); n = length ys in
      if n = 0 then NaN
      else if odd n then ys ! (n div 2)
      else fdiv (fadd (ys ! (n div 2 - 1)) (ys ! (n div 2))) (Fin 2))"

definition col_fillna_median :: "column \<Rightarrow> py_error + column" where
  "col_fillna_median c =
     (case c of
        FloatCol xs \<Rightarrow>
          (let m = median xs in
           Inr (if is_nan m then c else FloatCol (map (\<lambda>x. if is_nan x then m else x) xs)))
      | NullIntCol xs \<Rightarrow>
          (let m = median (map (\<lambda>i. round_double (of_int i)) (List.map_filter id xs)) in
           if None \<notin> set xs \<or> is_nan m then Inr c
           else if is_integral m
           then Inr (NullIntCol (map (\<lambda>x. case x of None \<Rightarrow> Some \<lfloor>fval m\<rfloor> | Some i \<Rightarrow> Some i) xs))
           else Inl TypeError)
      | _ \<Rightarrow> Inr c)"

fun is_numeric :: "column \<Rightarrow> bool" where
  \<comment> \<open>\<^verbatim>\<open>select_dtypes(include=[np.number])\<close>\<close>
  "is_numeric (FloatCol xs) = True"
| "is_numeric (IntCol xs) = True"
| "is_numeric (NullIntCol xs) = True"
| "is_numeric _ = False"

definition price_columns :: "string list" where
  "price_columns = [''current_price'', ''previous_close'', ''open'']"

definition change_columns :: "string list" where
  "change_columns = [''change'', ''change_percent'']"

definition fill_numeric :: "string \<Rightarrow> dataframe \<Rightarrow> py_error + dataframe" where
  \<comment> \<open>the body of the loop over the numeric columns\<close>
  "fill_numeric col df =
     (case get_col col df of
        None \<Rightarrow> Inl KeyError
      | Some c \<Rightarrow>
          if col \<in> set price_columns
          then Inr (set_col col (col_ffill c) df)
          else if col \<in> set change_columns
          then Inr (set_col col (col_fillna_zero c) df)
          else bind_err (col_fillna_median c) (\<lambda>c'. Inr (set_col col c' df)))"

fun fill_loop :: "string list \<Rightarrow> dataframe \<Rightarrow> py_error + dataframe" where
  "fill_loop [] df = Inr df"
| "fill_loop (col # cols) df = bind_err (fill_numeric col df) (fill_loop cols)"

definition col_fillna_from :: "column \<Rightarrow> column \<Rightarrow> column" where
  \<comment> \<open>\<^verbatim>\<open>c.fillna(s)\<close> with a column of the same frame: a null cell takes the cell of
      \<open>s\<close> in its row\<close>
  "col_fillna_from c s =
     (if \<not> list_ex pd_isna (col_cells c) then c
      else ObjCol (map (\<lambda>vs. if pd_isna (fst vs) then snd vs else fst vs)
                     (zip (col_cells c) (col_cells s))))"

definition handle_missing_values :: "dataframe \<Rightarrow> py_error + dataframe" where
  "handle_missing_values df =
     bind_err
       (fill_loop (map fst (filter (\<lambda>nc. is_numeric (snd nc)) (df_columns df))) df)
       (\<lambda>df1.
          case get_col ''company_name'' df1 of
            None \<Rightarrow> Inr df1
          | Some c \<Rightarrow>
              (case get_col ''symbol'' df1 of
                 None \<Rightarrow> Inl KeyError
               | Some s \<Rightarrow> Inr (set_col ''company_name'' (col_fillna_from c s) df1)))"

text \<open>
  For comparison, the forward fill in the words of the specification: the nearest
  preceding value of row \<open>i\<close> that is not null, if there is one.
\<close>

definition last_seen :: "('a \<Rightarrow> bool) \<Rightarrow> 'a list \<Rightarrow> 'a option" where
  "last_seen isnull xs =
     (case filter (\<lambda>x. \<not> isnull x) (rev xs) of [] \<Rightarrow> None | v # _ \<Rightarrow> Some v)"

definition nearest_preceding :: "pyval list \<Rightarrow> nat \<Rightarrow> pyval option" where
  "nearest_preceding vs i = last_seen pd_isna (take i vs)"

section \<open>Feature derivation\<close>

subsection \<open>Market-cap tiers\<close>

fun categorize_market_cap :: "pyval \<Rightarrow> string" where
  "categorize_market_cap market_cap =
     (if pd_isna market_cap then ''Unknown''
      else case market_cap of
        PStr s \<Rightarrow>
          (if py_in ''T'' s then ''Mega Cap''
           else if py_in ''B'' s then ''Large Cap''
           else if py_in ''M'' s then ''Mid Cap''
           else ''Small Cap'')
      | _ \<Rightarrow> ''Unknown'')"

subsection \<open>Momentum and volatility\<close>

text \<open>
  The two expressions of \<^verbatim>\<open>add_derived_metrics\<close> on the cells of one row. There is no
  test for a null or zero operand in the code: the operations are those of float
  arithmetic.
\<close>

definition price_momentum :: "pyfloat \<Rightarrow> pyfloat \<Rightarrow> pyfloat" where
  "price_momentum current_price previous_close =
     fmul (fdiv (fsub current_price previous_close) previous_close) (Fin 100)"

definition daily_volatility :: "pyfloat \<Rightarrow> pyfloat \<Rightarrow> pyfloat \<Rightarrow> pyfloat" where
  "daily_volatility day_high day_low current_price =
     fmul (fdiv (fsub day_high day_low) current_price) (Fin 100)"

text \<open>
  \<^verbatim>\<open>(a - b) / c * 100\<close> on columns: row by row on \<^verbatim>\<open>float64\<close> columns; numeric columns
  without rows give a \<^verbatim>\<open>float64\<close> column without rows; other operands are left to the
  library parameter.
\<close>

definition ratio_percent ::
  "(column \<Rightarrow> column \<Rightarrow> column \<Rightarrow> py_error + column) \<Rightarrow> column \<Rightarrow> column \<Rightarrow> column
     \<Rightarrow> py_error + column" where
  "ratio_percent other a b c =
     (case (a, b, c) of
        (FloatCol xs, FloatCol ys, FloatCol zs) \<Rightarrow>
          Inr (FloatCol (map (\<lambda>(x, y, z). fmul (fdiv (fsub x y) z) (Fin 100))
                           (zip xs (zip ys zs))))
      | _ \<Rightarrow>
          if is_numeric a \<and> is_numeric b \<and> is_numeric c
             \<and> col_cells a = [] \<and> col_cells b = [] \<and> col_cells c = []
          then Inr (FloatCol [])
          else other a b c)"

subsection \<open>Performance tiers\<close>

fun float_gt :: "pyfloat \<Rightarrow> rat \<Rightarrow> bool" where
  "float_gt (Fin q) r = (r < q)"
| "float_gt NegZero r = (r < 0)"
| "float_gt PInf r = True"
| "float_gt _ r = False"

definition performance_tier :: "(rat \<Rightarrow> bool) \<Rightarrow> string" where
  "performance_tier gt =
     (if gt 5 then ''Strong Positive''
      else if gt 2 then ''Positive''
      else if gt (- 2) then ''Neutral''
      else if gt (- 5) then ''Negative''
      else ''Strong Negative'')"

definition categorize_performance :: "pyval \<Rightarrow> py_error + string" where
  \<comment> \<open>comparing a string or a time stamp with a number raises \<^verbatim>\<open>TypeError\<close>\<close>
  "categorize_performance change_percent =
     (if pd_isna change_percent then Inr ''Unknown''
      else case change_percent of
        PFloat f \<Rightarrow> Inr (performance_tier (float_gt f))
      | PInt i \<Rightarrow> Inr (performance_tier (\<lambda>r. r < of_int i))
      | _ \<Rightarrow> Inl TypeError)"

subsection \<open>\<^verbatim>\<open>add_derived_metrics\<close>\<close>

definition derive_in ::
  "string \<Rightarrow> string \<Rightarrow> (pyval \<Rightarrow> py_error + pyval) \<Rightarrow> dataframe \<Rightarrow> py_error + dataframe" where
  \<comment> \<open>\<^verbatim>\<open>if src in df.columns: df[dst] = df[src].apply(f)\<close>\<close>
  "derive_in src dst f df =
     (case get_col src df of
        None \<Rightarrow> Inr df
      | Some c \<Rightarrow> bind_err (col_apply f c) (\<lambda>c'. Inr (set_col dst c' df)))"

definition add_momentum :: "library \<Rightarrow> dataframe \<Rightarrow> py_error + dataframe" where
  "add_momentum lib df =
     (case (get_col ''current_price'' df, get_col ''previous_close'' df) of
        (Some cp, Some pc) \<Rightarrow>
          bind_err (ratio_percent (lib_ratio lib) cp pc pc)
            (\<lambda>m. Inr (set_col ''price_momentum'' m df))
      | _ \<Rightarrow> Inr df)"

definition add_volatility :: "library \<Rightarrow> dataframe \<Rightarrow> py_error + dataframe" where
  \<comment> \<open>\<^verbatim>\<open>df['current_price']\<close> is read without a test: \<^verbatim>\<open>KeyError\<close> when it is missing\<close>
  "add_volatility lib df =
     (case (get_col ''day_high'' df, get_col ''day_low'' df) of
        (Some hi, Some lo) \<Rightarrow>
          (case get_col ''current_price'' df of
             None \<Rightarrow> Inl KeyError
           | Some cp \<Rightarrow>
               bind_err (ratio_percent (lib_ratio lib) hi lo cp)
                 (\<lambda>v. Inr (set_col ''daily_volatility'' v df)))
      | _ \<Rightarrow> Inr df)"

definition add_derived_metrics :: "library \<Rightarrow> dataframe \<Rightarrow> py_error + dataframe" where
  "add_derived_metrics lib df =
     bind_err (add_momentum lib df)
       (\<lambda>df1. bind_err (add_volatility lib df1)
       (\<lambda>df2. bind_err
          (derive_in ''market_cap'' ''market_cap_category''
             (\<lambda>v. Inr (PStr (categorize_market_cap v))) df2)
       (\<lambda>df3.
          derive_in ''change_percent'' ''performance_category''
            (\<lambda>v. bind_err (categorize_performance v) (\<lambda>s. Inr (PStr s))) df3)))"

subsection \<open>\<^verbatim>\<open>process_data\<close>\<close>

definition df_empty :: "dataframe \<Rightarrow> bool" where
  \<comment> \<open>\<^verbatim>\<open>df.empty\<close>: no row or no column\<close>
  "df_empty df = (df_index df = [] \<or> df_columns df = [])"

definition pipeline :: "library \<Rightarrow> dataframe \<Rightarrow> py_error + dataframe" where
  \<comment> \<open>the four steps in the order of \<^verbatim>\<open>process_data\<close>\<close>
  "pipeline lib df =
     bind_err (clean_data (lib_str lib) df)
       (\<lambda>df1. bind_err (standardize_formats lib df1)
       (\<lambda>df2. bind_err (handle_missing_values df2)
       (\<lambda>df3. add_derived_metrics lib df3)))"

definition except_Exception :: "py_error + 'a option \<Rightarrow> py_error + 'a option" where
  \<comment> \<open>\<^verbatim>\<open>try: body\<close> / \<^verbatim>\<open>except Exception: return None\<close>\<close>
  "except_Exception r = (case r of Inl e \<Rightarrow> Inr None | Inr x \<Rightarrow> Inr x)"

definition process_data :: "library \<Rightarrow> string \<Rightarrow> py_error + dataframe option" where
  "process_data lib input_file =
     except_Exception
       (bind_err (lib_read_csv lib input_file)
          (\<lambda>df. if df_empty df then Inr None
                else bind_err (pipeline lib df) (\<lambda>df_processed. Inr (Some df_processed))))"

section \<open>Collecting a batch of symbols\<close>

text \<open>
  A dictionary is an association list. What \<^verbatim>\<open>scrape_yahoo_finance\<close> reads from the
  network and finds in the page is a parameter \<open>fetch\<close>: for a symbol, either the
  exception raised inside its \<^verbatim>\<open>try\<close> block, or the fields found on the page (a field
  that is \<open>None\<close> here was not on the page, and its key is not set). The clock gives
  the time stamp written for a symbol.
\<close>

type_synonym pydict = "(string \<times> pyval) list"

definition has_key :: "string \<Rightarrow> pydict \<Rightarrow> bool" where
  "has_key k d = (k \<in> set (map fst d))"

record page_fields =
  pf_current_price :: "pyval option"
  pf_change :: "pyval option"
  pf_change_percent :: "pyval option"
  pf_previous_close :: "pyval option"
  pf_open :: "pyval option"
  pf_volume :: "pyval option"
  pf_market_cap :: "pyval option"
  pf_pe_ratio :: "pyval option"
  pf_company_name :: "pyval option"

definition opt_item :: "string \<Rightarrow> pyval option \<Rightarrow> pydict" where
  "opt_item k v = (case v of None \<Rightarrow> [] | Some x \<Rightarrow> [(k, x)])"

fun error_text :: "py_error \<Rightarrow> string" where
  "error_text ValueError = ''ValueError''"
| "error_text OverflowError = ''OverflowError''"
| "error_text TypeError = ''TypeError''"
| "error_text KeyError = ''KeyError''"
| "error_text (OtherError m) = m"

definition yahoo_record :: "string \<Rightarrow> string \<Rightarrow> page_fields \<Rightarrow> pydict" where
  "yahoo_record symbol stamp pf =
     [(''symbol'', PStr symbol), (''source'', PStr ''yahoo'')]
     @ opt_item ''current_price'' (pf_current_price pf)
     @ opt_item ''change'' (pf_change pf)
     @ opt_item ''change_percent'' (pf_change_percent pf)
     @ opt_item ''previous_close'' (pf_previous_close pf)
     @ opt_item ''open'' (pf_open pf)
     @ opt_item ''volume'' (pf_volume pf)
     @ opt_item ''market_cap'' (pf_market_cap pf)
     @ opt_item ''pe_ratio'' (pf_pe_ratio pf)
     @ opt_item ''company_name'' (pf_company_name pf)
     @ [(''timestamp'', PStr stamp)]"

definition scrape_yahoo_finance ::
  "(string \<Rightarrow> py_error + page_fields) \<Rightarrow> (string \<Rightarrow> string) \<Rightarrow> string \<Rightarrow> pydict" where
  "scrape_yahoo_finance fetch clock symbol =
     (case fetch symbol of
        Inr pf \<Rightarrow> yahoo_record symbol (clock symbol) pf
      | Inl e \<Rightarrow>
          [(''symbol'', PStr symbol), (''source'', PStr ''yahoo''),
           (''error'', PStr (error_text e))])"

definition scrape_stock_data ::
  "(string \<Rightarrow> py_error + page_fields) \<Rightarrow> (string \<Rightarrow> string) \<Rightarrow> string \<Rightarrow> pydict" where
  \<comment> \<open>\<^verbatim>\<open>scrape_yahoo_finance\<close> catches every exception itself, so the \<^verbatim>\<open>except\<close>
      branch here has nothing to catch; both ways out of the \<^verbatim>\<open>try\<close> reach the
      fallback record\<close>
  "scrape_stock_data fetch clock symbol =
     (let data = scrape_yahoo_finance fetch clock symbol in
      if \<not> has_key ''error'' data then data
      else [(''symbol'', PStr symbol), (''current_price'', PNone), (''change'', PNone),
            (''change_percent'', PNone), (''timestamp'', PStr (clock symbol)),
            (''error'', PStr ''Could not fetch data'')])"

text \<open>
  The loop of \<^verbatim>\<open>scrape_multiple_stocks\<close> over the symbols, with the list
  \<^verbatim>\<open>all_stock_data\<close> as accumulator. The pause between two symbols has no effect on
  the result. The raw dataset is the list of the records appended, in order (the rows of
  the \<^verbatim>\<open>DataFrame\<close> built from it); \<open>None\<close> is the function's \<^verbatim>\<open>return None\<close>.
\<close>

fun scrape_loop ::
  "(string \<Rightarrow> py_error + page_fields) \<Rightarrow> (string \<Rightarrow> string) \<Rightarrow> string list
     \<Rightarrow> pydict list \<Rightarrow> pydict list" where
  "scrape_loop fetch clock [] all_stock_data = all_stock_data"
| "scrape_loop fetch clock (symbol # symbols) all_stock_data =
     (let stock_data = scrape_stock_data fetch clock symbol in
      scrape_loop fetch clock symbols
        (if \<not> has_key ''error'' stock_data then all_stock_data @ [stock_data]
         else all_stock_data))"

definition scrape_multiple_stocks ::
  "(string \<Rightarrow> py_error + page_fields) \<Rightarrow> (string \<Rightarrow> string) \<Rightarrow> string list
     \<Rightarrow> pydict list option" where
  "scrape_multiple_stocks fetch clock symbols =
     (let all_stock_data = scrape_loop fetch clock symbols [] in
      if all_stock_data \<noteq> [] then Some all_stock_data else None)"

text \<open>A concrete source: \<open>AAPL\<close> has a page with a price, every other symbol times out.\<close>

definition demo_fields :: page_fields where
  "demo_fields =
     \<lparr>pf_current_price = Some (PFloat (Fin 150)), pf_change = None, pf_change_percent = None,
      pf_previous_close = None, pf_open = None, pf_volume = Some (PStr ''1.2M''),
      pf_market_cap = None, pf_pe_ratio = None, pf_company_name = None\<rparr>"

definition demo_fetch :: "string \<Rightarrow> py_error + page_fields" where
  "demo_fetch symbol =
     (if symbol = ''AAPL'' then Inr demo_fields else Inl (OtherError ''timed out''))"

definition demo_clock :: "string \<Rightarrow> string" where
  "demo_clock symbol = ''2024-01-01T00:00:00''"

text \<open>
  A raw dataset of four rows, as read from a file: the second row is a failed fetch,
  the third has a previous close of zero, the fourth has no prices.
\<close>

definition demo_raw :: dataframe where
  "demo_raw =
     \<lparr>df_index = [0, 1, 2, 3],
      df_columns =
        [(''symbol'', ObjCol [PStr ''AAPL'', PStr ''MSFT'', PStr ''TSLA'', PStr ''NVDA'']),
         (''current_price'', FloatCol [Fin 110, NaN, Fin 100, NaN]),
         (''previous_close'', FloatCol [Fin 100, NaN, Fin 0, NaN]),
         (''volume'', ObjCol [PStr ''1.2M'', PFloat NaN, PStr ''950K'', PStr ''12,345'']),
         (''market_cap'', ObjCol [PStr ''2.5T'', PFloat NaN, PStr '' 800B'', PFloat NaN]),
         (''error'', ObjCol [PFloat NaN, PStr ''Could not fetch data'', PFloat NaN, PFloat NaN])]\<rparr>"

definition demo_lib :: library where
  "demo_lib =
     \<lparr>lib_str = (\<lambda>v. ''?''),
      lib_to_datetime = (\<lambda>v. Inr None),
      lib_to_numeric = (\<lambda>v. PFloat NaN),
      lib_now = 0,
      lib_ratio = (\<lambda>a b c. Inl TypeError),
      lib_read_csv = (\<lambda>file. if file = ''raw.csv'' then Inr demo_raw else Inl (OtherError ''no file''))\<rparr>"

definition demo_cleaned :: dataframe where
  "demo_cleaned =
     \<lparr>df_index = [0, 2, 3],
      df_columns =
        [(''symbol'', ObjCol [PStr ''AAPL'', PStr ''TSLA'', PStr ''NVDA'']),
         (''current_price'', FloatCol [Fin 110, Fin 100, NaN]),
         (''previous_close'', FloatCol [Fin 100, Fin 0, NaN]),
         (''volume'', IntCol [1200000, 950000, 12345]),
         (''market_cap'', ObjCol [PStr ''2.5T'', PStr ''800B'', PNone]),
         (''error'', ObjCol [PFloat NaN, PFloat NaN, PFloat NaN])]\<rparr>"

definition demo_standardized :: dataframe where
  "demo_standardized =
     \<lparr>df_index = [0, 2, 3],
      df_columns =
        [(''symbol'', ObjCol [PStr ''AAPL'', PStr ''TSLA'', PStr ''NVDA'']),
         (''current_price'', FloatCol [Fin 110, Fin 100, NaN]),
         (''previous_close'', FloatCol [Fin 100, Fin 0, NaN]),
         (''volume'', NullIntCol [Some 1200000, Some 950000, Some 12345]),
         (''market_cap'', ObjCol [PStr ''2.5T'', PStr ''800B'', PNone]),
         (''error'', ObjCol [PFloat NaN, PFloat NaN, PFloat NaN]),
         (''processed_at'', TimeCol [Some 0, Some 0, Some 0])]\<rparr>"

definition demo_filled :: dataframe where
  "demo_filled =
     \<lparr>df_index = [0, 2, 3],
      df_columns =
        [(''symbol'', ObjCol [PStr ''AAPL'', PStr ''TSLA'', PStr ''NVDA'']),
         (''current_price'', FloatCol [Fin 110, Fin 100, Fin 100]),
         (''previous_close'', FloatCol [Fin 100, Fin 0, Fin 0]),
         (''volume'', NullIntCol [Some 1200000, Some 950000, Some 12345]),
         (''market_cap'', ObjCol [PStr ''2.5T'', PStr ''800B'', PNone]),
         (''error'', ObjCol [PFloat NaN, PFloat NaN, PFloat NaN]),
         (''processed_at'', TimeCol [Some 0, Some 0, Some 0])]\<rparr>"

definition demo_processed :: dataframe where
  "demo_processed =
     \<lparr>df_index = [0, 2, 3],
      df_columns =
        [(''symbol'', ObjCol [PStr ''AAPL'', PStr ''TSLA'', PStr ''NVDA'']),
         (''current_price'', FloatCol [Fin 110, Fin 100, Fin 100]),
         (''previous_close'', FloatCol [Fin 100, Fin 0, Fin 0]),
         (''volume'', NullIntCol [Some 1200000, Some 950000, Some 12345]),
         (''market_cap'', ObjCol [PStr ''2.5T'', PStr ''800B'', PNone]),
         (''error'', ObjCol [PFloat NaN, PFloat NaN, PFloat NaN]),
         (''processed_at'', TimeCol [Some 0, Some 0, Some 0]),
         (''price_momentum'', FloatCol [Fin 10, PInf, PInf]),
         (''market_cap_category'',
          ObjCol [PStr ''Mega Cap'', PStr ''Large Cap'', PStr ''Unknown''])]\<rparr>"

section \<open>Properties\<close>

lemma py_in_single: "py_in [c] s \<longleftrightarrow> c \<in> set s"
  by (induction s) auto

text \<open>
  Claim C8. The market-cap category of a string is decided by which of the letters
  \<open>T\<close>, \<open>B\<close>, \<open>M\<close> occurs anywhere in it, tested in that order: Mega Cap, Large Cap,
  Mid Cap, and Small Cap when none occurs. A null market cap (\<^verbatim>\<open>None\<close> or NaN) is Unknown.
\<close>

theorem categorize_market_cap_tiers:
  "categorize_market_cap PNone = ''Unknown''
   \<and> categorize_market_cap (PFloat NaN) = ''Unknown''
   \<and> categorize_market_cap (PStr s) =
       (if CHR ''T'' \<in> set s then ''Mega Cap''
        else if CHR ''B'' \<in> set s then ''Large Cap''
        else if CHR ''M'' \<in> set s then ''Mid Cap''
        else ''Small Cap'')"
  by (simp add: py_in_single)


subsection \<open>Evaluating floats\<close>

lemma floor_rat_numeral_div:
  "\<lfloor>numeral a / numeral b :: rat\<rfloor> = numeral a div numeral b"
  by (metis floor_divide_of_int_eq of_int_numeral)

lemma floor_rat_one_div: "\<lfloor>1 / numeral b :: rat\<rfloor> = 1 div numeral b"
  by (metis floor_divide_of_int_eq of_int_numeral of_int_1)

lemma ceiling_rat_numeral_div:
  "\<lceil>numeral a / numeral b :: rat\<rceil> = - (- numeral a div numeral b)"
  by (metis ceiling_divide_eq_div of_int_numeral)

lemmas float_eval =
  round_double_def round_pos_def floor_log2_def bit_length.simps round_half_even_def
  pow2_def floor_rat_numeral_div floor_rat_one_div ceiling_rat_numeral_div Let_def

subsection \<open>8-bit text as code points\<close>

lemma of_char_below_256: "(of_char c :: nat) < 256"
proof -
  have "(of_char c :: nat) mod 256 < 256" by simp
  then show ?thesis by (simp only: of_char_mod_256)
qed

lemma to_decimal_below_256:
  "n < 256 \<Longrightarrow> to_decimal n = (if 48 \<le> n \<and> n < 58 then Some (n - 48) else None)"
  by (simp add: to_decimal_def decimal_runs_def)

lemma is_digit_code: "is_digit c \<longleftrightarrow> 48 \<le> (of_char c :: nat) \<and> (of_char c :: nat) < 58"
proof
  assume "is_digit c"
  then show "48 \<le> (of_char c :: nat) \<and> (of_char c :: nat) < 58"
    by (auto simp: is_digit_def)
next
  define n :: nat where "n = of_char c"
  assume "48 \<le> (of_char c :: nat) \<and> (of_char c :: nat) < 58"
  then have "48 \<le> n \<and> n < 58" by (simp add: n_def)
  then have "n = 48 \<or> n = 49 \<or> n = 50 \<or> n = 51 \<or> n = 52 \<or> n = 53 \<or> n = 54 \<or> n = 55
             \<or> n = 56 \<or> n = 57"
    by arith
  then have "n \<in> of_char ` set ''0123456789''" by auto
  then obtain d where d: "d \<in> set ''0123456789''" and "(of_char c :: nat) = of_char d"
    unfolding n_def by blast
  then have "c = d" by simp
  with d show "is_digit c" by (simp only: is_digit_def)
qed

text \<open>Below code point 256 the class \<^verbatim>\<open>\d\<close> holds the digits \<open>0\<close> to \<open>9\<close> only.\<close>

lemma is_decimal_of_char: "is_decimal (of_char c) \<longleftrightarrow> is_digit c"
  by (simp add: is_decimal_def to_decimal_below_256 [OF of_char_below_256] is_digit_code)

lemma of_char_eq_code: "(of_char d :: nat) = n \<Longrightarrow> (of_char c = n) = (c = d)"
  by auto

lemma of_char_full_stop: "((of_char c :: nat) = 46) = (c = CHR ''.'')"
  by (rule of_char_eq_code) simp

lemma of_char_hyphen: "((of_char c :: nat) = 45) = (c = CHR ''-'')"
  by (rule of_char_eq_code) simp

lemma transform_ascii:
  "list_all is_ascii s \<Longrightarrow> transform_decimal_and_space (map of_char s) = s"
proof -
  assume "list_all is_ascii s"
  then have "list_all (\<lambda>ch. ch < 128) (map of_char s :: nat list)"
    by (simp add: list_all_iff is_ascii_def)
  then show ?thesis
    by (simp add: transform_decimal_and_space_def comp_def)
qed

lemma py_float_ascii: "list_all is_ascii s \<Longrightarrow> py_float s = float_from_string s"
  by (simp add: py_float_def py_float_text_def transform_ascii)

lemma is_digit_ascii: "is_digit c \<Longrightarrow> is_ascii c"
  by (simp add: is_digit_code is_ascii_def)

lemmas string_eval =
  is_digit_def is_space_def is_ascii_space_def is_ascii_def digit_val_def upper_char_def
  lower_char_def py_upper_def py_lower_def strip_by_def py_strip_def digits_val_def pow10_def
  split_sign_def parse_exponent_def parse_decimal_def py_float_inner_def py_float_ascii
  float_from_string_def signed_zero_def signed_inf_def Let_def

subsection \<open>Cleaning numbers\<close>

lemma py_float_inner_error: "py_float_inner s = Inl e \<Longrightarrow> e = ValueError"
  by (auto simp: py_float_inner_def Let_def split: prod.splits if_splits option.splits)

lemma float_from_string_error: "float_from_string s = Inl e \<Longrightarrow> e = ValueError"
  by (auto simp: float_from_string_def dest: py_float_inner_error split: if_splits)

lemma py_float_text_error: "py_float_text t = Inl e \<Longrightarrow> e = ValueError"
  by (auto simp: py_float_text_def dest: float_from_string_error)

lemma py_float_error: "py_float s = Inl e \<Longrightarrow> e = ValueError"
  by (auto simp: py_float_def dest: py_float_text_error)

lemma py_float_empty: "py_float [] = Inl ValueError"
  by (simp add: string_eval)

lemma clean_numeric_text_of_char:
  "clean_numeric_text (map of_char s) =
     (let cleaned = filter (\<lambda>c. is_digit c \<or> c = CHR ''.'' \<or> c = CHR ''-'') s in
      if cleaned \<noteq> [] then except_ValueError (py_float cleaned) else Inr None)"
proof -
  have keep: "(\<lambda>ch. is_decimal ch \<or> ch = 46 \<or> ch = 45) \<circ> of_char =
              (\<lambda>c. is_digit c \<or> c = CHR ''.'' \<or> c = CHR ''-'')"
    by (rule ext) (simp only: comp_def is_decimal_of_char of_char_full_stop of_char_hyphen)
  show ?thesis
    by (simp only: clean_numeric_text_def filter_map keep Let_def py_float_def map_is_Nil_conv)
qed

text \<open>\<^verbatim>\<open>clean_numeric_value\<close> on the cells of a frame, in terms of 8-bit characters.\<close>

lemma clean_numeric_value_chars:
  "clean_numeric_value v =
     (if pd_isna v then Inr None
      else case v of
        PInt i \<Rightarrow> bind_err (float_of_int i) (\<lambda>f. Inr (Some f))
      | PFloat f \<Rightarrow> Inr (Some f)
      | PStr s \<Rightarrow>
          (let cleaned = filter (\<lambda>c. is_digit c \<or> c = CHR ''.'' \<or> c = CHR ''-'') s in
           except_ValueError
             (if cleaned \<noteq> [] then py_float cleaned else Inl ValueError))
      | _ \<Rightarrow> Inr None)"
  by (cases v) (simp_all add: clean_numeric_value_def clean_numeric_text_of_char Let_def
      except_ValueError_def)

lemma except_ValueError_py_float:
  "except_ValueError (py_float s) = (case py_float s of Inr f \<Rightarrow> Inr (Some f) | Inl e \<Rightarrow> Inr None)"
  by (cases "py_float s") (auto simp: except_ValueError_def dest: py_float_error)

lemma clean_numeric_value_dollar:
  "clean_numeric_value (PStr ''$123.45'') = Inr (Some (round_double (12345 / 100)))"
  by (simp add: clean_numeric_value_chars except_ValueError_def string_eval)

text \<open>
  On 8-bit text \<^verbatim>\<open>clean_numeric_value\<close> keeps the characters \<open>0\<close> to \<open>9\<close>, \<open>.\<close> and \<open>-\<close>,
  reads what is left as a float, and returns \<^verbatim>\<open>None\<close> when nothing is left or the rest
  is not a float; it raises nothing. \<^verbatim>\<open>"$123.45"\<close> gives the float \<open>123.45\<close> (the double
  nearest to 12345/100), the empty string gives \<^verbatim>\<open>None\<close>.
\<close>

lemma clean_numeric_value_string:
  "clean_numeric_value (PStr s) =
     (case py_float (filter (\<lambda>c. c \<in> set ''0123456789.-'') s) of
        Inr f \<Rightarrow> Inr (Some f)
      | Inl e \<Rightarrow> Inr None)
   \<and> clean_numeric_value (PStr ''$123.45'') = Inr (Some (round_double (12345 / 100)))
   \<and> round_double (12345 / 100) = Fin (8687021468732621 / 70368744177664)
   \<and> clean_numeric_value (PStr '''') = Inr None"
proof -
  have keep: "(\<lambda>c. is_digit c \<or> c = CHR ''.'' \<or> c = CHR ''-'') = (\<lambda>c. c \<in> set ''0123456789.-'')"
    by (auto simp: is_digit_def)
  have general: "clean_numeric_value (PStr s) =
     (case py_float (filter (\<lambda>c. c \<in> set ''0123456789.-'') s) of
        Inr f \<Rightarrow> Inr (Some f)
      | Inl e \<Rightarrow> Inr None)"
  proof (cases "filter (\<lambda>c. c \<in> set ''0123456789.-'') s = []")
    case True
    then show ?thesis
      by (simp add: clean_numeric_value_chars keep py_float_empty except_ValueError_def
          del: set_simps list.set)
  next
    case False
    then show ?thesis
      by (simp add: clean_numeric_value_chars keep except_ValueError_py_float
          del: set_simps list.set)
  qed
  have rounded: "round_double (12345 / 100) = Fin (8687021468732621 / 70368744177664)"
    by (simp add: float_eval)
  have empty: "clean_numeric_value (PStr '''') = Inr None"
    by (simp add: clean_numeric_value_chars except_ValueError_def)
  from general clean_numeric_value_dollar rounded empty show ?thesis by blast
qed

text \<open>
  Beyond 8 bits the pattern \<^verbatim>\<open>[^\d.-]\<close> keeps more than the characters of
  \<^verbatim>\<open>[0-9.-]\<close>. On a text of code points the function keeps every decimal digit, the full
  stop and the hyphen, and reads what is left with \<^verbatim>\<open>float\<close>.
\<close>

lemma clean_numeric_text_result:
  "clean_numeric_text t =
     (let cleaned = filter (\<lambda>ch. is_decimal ch \<or> ch = 46 \<or> ch = 45) t in
      if cleaned = [] then Inr None
      else case py_float_text cleaned of Inr f \<Rightarrow> Inr (Some f) | Inl e \<Rightarrow> Inr None)"
proof -
  have "except_ValueError (py_float_text u) =
          (case py_float_text u of Inr f \<Rightarrow> Inr (Some f) | Inl e \<Rightarrow> Inr None)" for u
    by (cases "py_float_text u") (auto simp: except_ValueError_def dest: py_float_text_error)
  then show ?thesis by (simp add: clean_numeric_text_def Let_def)
qed

lemma fullwidth_is_decimal: "is_decimal 0xFF11 \<and> is_decimal 0xFF12"
  by (simp add: is_decimal_def to_decimal_def decimal_runs_def)

lemma fullwidth_transform: "transform_decimal_and_space [0xFF11, 0xFF12] = ''12''"
  by (simp add: transform_decimal_and_space_def to_decimal_def decimal_runs_def
      is_unicode_space_def)

lemma float_from_string_12: "float_from_string ''12'' = Inr (Fin 12)"
  by (simp add: string_eval float_eval)

text \<open>
  Claim C5. \<^verbatim>\<open>clean_numeric_value\<close> does not strip every character outside
  \<^verbatim>\<open>[0-9.-]\<close>: its pattern \<^verbatim>\<open>[^\d.-]\<close> keeps the decimal digits of every script, and
  \<^verbatim>\<open>float\<close> reads them. The text of the two full-width digits U+FF11 and U+FF12 gives
  the float \<open>12.0\<close>, where the reading of the specification, which strips both, gives
  null. (\<^verbatim>\<open>clean_price\<close> and \<^verbatim>\<open>clean_percentage\<close> in \<^verbatim>\<open>scraper.py\<close> strip with
  \<^verbatim>\<open>[^0-9.-]\<close>.)
\<close>

theorem clean_numeric_value_fullwidth:
  "clean_numeric_text [0xFF11, 0xFF12] = Inr (Some (Fin 12))
   \<and> spec_clean_numeric [0xFF11, 0xFF12] = None"
proof -
  have code: "clean_numeric_text [0xFF11, 0xFF12] = Inr (Some (Fin 12))"
    by (simp add: clean_numeric_text_def fullwidth_is_decimal py_float_text_def
        fullwidth_transform float_from_string_12 except_ValueError_def)
  have spec: "spec_clean_numeric [0xFF11, 0xFF12] = None"
    by (simp add: spec_clean_numeric_def)
  from code spec show ?thesis by (rule conjI)
qed

subsection \<open>Cleaning volumes\<close>

lemma py_remove_single: "py_remove [c] s = filter (\<lambda>d. d \<noteq> c) s"
  by (induction s) auto

lemmas volume_eval =
  clean_volume_value_def multipliers_def except_ValueError_def bind_err_def fmul_def

lemma clean_volume_value_M: "clean_volume_value (PStr ''1.2M'') = Inr (Some 1200000)"
  by (simp add: volume_eval string_eval float_eval)

lemma clean_volume_value_K: "clean_volume_value (PStr ''950K'') = Inr (Some 950000)"
  by (simp add: volume_eval string_eval float_eval)

lemma clean_volume_value_B: "clean_volume_value (PStr ''2B'') = Inr (Some 2000000000)"
  by (simp add: volume_eval string_eval float_eval)

lemma clean_volume_value_plain: "clean_volume_value (PStr ''12,345'') = Inr (Some 12345)"
  by (simp add: volume_eval string_eval float_eval)

text \<open>
  Claim C4, as stated, fails for a text without suffix: the decimal point is kept, the
  text is read as a float and the float is cut to an integer. \<^verbatim>\<open>"12.7"\<close> gives 12,
  where dropping every non-digit and reading an integer gives 127.
\<close>

theorem clean_volume_plain_counterexample:
  "clean_volume_value (PStr ''12.7'') = Inr (Some 12) \<and> spec_plain_volume ''12.7'' = Some 127"
  by (simp add: volume_eval spec_plain_volume_def string_eval float_eval)

text \<open>
  Claim C4, amended. On a string, \<^verbatim>\<open>clean_volume_value\<close> upper-cases the text and drops
  the commas. If the letter \<open>K\<close> occurs in it, else \<open>M\<close>, else \<open>B\<close>, every occurrence of
  that letter is dropped, the rest is read as a float, multiplied by \<open>10\<^sup>3\<close>, \<open>10\<^sup>6\<close> or
  \<open>10\<^sup>9\<close> and cut to an integer. With none of the letters, the characters of the
  original text other than digits and \<open>.\<close> are dropped, and the rest is read as a float
  and cut to an integer. A \<^verbatim>\<open>ValueError\<close> on the way gives \<^verbatim>\<open>None\<close>. The four examples
  of the claim hold.
\<close>

theorem clean_volume_value_string:
  "clean_volume_value (PStr s) =
     (let u = filter (\<lambda>c. c \<noteq> CHR '','') (map upper_char s);
          scaled = (\<lambda>k m. except_ValueError
                      (bind_err (py_float (filter (\<lambda>c. c \<noteq> k) u))
                         (\<lambda>number. int_of_float (fmul number (Fin m)))))
      in if CHR ''K'' \<in> set u then scaled (CHR ''K'') 1000
         else if CHR ''M'' \<in> set u then scaled (CHR ''M'') 1000000
         else if CHR ''B'' \<in> set u then scaled (CHR ''B'') 1000000000
         else except_ValueError
                (bind_err (py_float (filter (\<lambda>c. c \<in> set ''0123456789.'') s)) int_of_float))
   \<and> clean_volume_value (PStr ''1.2M'') = Inr (Some 1200000)
   \<and> clean_volume_value (PStr ''950K'') = Inr (Some 950000)
   \<and> clean_volume_value (PStr ''2B'') = Inr (Some 2000000000)
   \<and> clean_volume_value (PStr ''12,345'') = Inr (Some 12345)"
proof -
  have keep: "(\<lambda>c. is_digit c \<or> c = CHR ''.'') = (\<lambda>c. c \<in> set ''0123456789.'')"
    by (auto simp: is_digit_def)
  have "clean_volume_value (PStr s) =
     (let u = filter (\<lambda>c. c \<noteq> CHR '','') (map upper_char s);
          scaled = (\<lambda>k m. except_ValueError
                      (bind_err (py_float (filter (\<lambda>c. c \<noteq> k) u))
                         (\<lambda>number. int_of_float (fmul number (Fin m)))))
      in if CHR ''K'' \<in> set u then scaled (CHR ''K'') 1000
         else if CHR ''M'' \<in> set u then scaled (CHR ''M'') 1000000
         else if CHR ''B'' \<in> set u then scaled (CHR ''B'') 1000000000
         else except_ValueError
                (bind_err (py_float (filter (\<lambda>c. c \<in> set ''0123456789.'') s)) int_of_float))"
    by (simp add: clean_volume_value_def multipliers_def py_upper_def py_remove_single
        py_in_single keep Let_def del: set_simps list.set set_filter)
  with clean_volume_value_M clean_volume_value_K clean_volume_value_B clean_volume_value_plain
  show ?thesis by blast
qed

subsection \<open>Data frames\<close>

lemma bind_err_Inr: "bind_err r f = Inr y \<longleftrightarrow> (\<exists>x. r = Inr x \<and> f x = Inr y)"
  by (cases r) (auto simp: bind_err_def)

lemma bind_err_Inl: "bind_err r f = Inl e \<longleftrightarrow> r = Inl e \<or> (\<exists>x. r = Inr x \<and> f x = Inl e)"
  by (cases r) (auto simp: bind_err_def)

lemma set_col_index: "df_index (set_col name c df) = df_index df"
  by (simp add: set_col_def)

lemma get_col_set_col:
  "get_col name' (set_col name c df) = (if name' = name then Some c else get_col name' df)"
proof -
  have upd: "map_of (map (\<lambda>nc. if fst nc = name then (name, c) else nc) cs) name' =
             (if name' = name then (if map_of cs name = None then None else Some c)
              else map_of cs name')" for cs
    by (induction cs) auto
  have app: "name \<notin> set (map fst cs) \<Longrightarrow>
             map_of (cs @ [(name, c)]) name' = (if name' = name then Some c else map_of cs name')" for cs
    by (induction cs) auto
  show ?thesis
  proof (cases "name \<in> set (map fst (df_columns df))")
    case True
    then have "map_of (df_columns df) name \<noteq> None"
      by (simp add: map_of_eq_None_iff)
    with True upd [of "df_columns df"] show ?thesis
      by (auto simp: get_col_def set_col_def)
  next
    case False
    with app [of "df_columns df"] show ?thesis
      by (simp add: get_col_def set_col_def)
  qed
qed

lemma apply_in_frame:
  assumes "apply_in name f df = Inr df'"
  shows "df_index df' = df_index df" and "name' \<noteq> name \<Longrightarrow> get_col name' df' = get_col name' df"
  using assms
  by (auto simp: apply_in_def bind_err_Inr set_col_index get_col_set_col split: option.splits)

lemma apply_in_all_frame:
  assumes "apply_in_all names f df = Inr df'"
  shows "df_index df' = df_index df \<and> (name' \<notin> set names \<longrightarrow> get_col name' df' = get_col name' df)"
  using assms
proof (induction names arbitrary: df)
  case Nil
  then show ?case by simp
next
  case (Cons n ns)
  then obtain df1 where 1: "apply_in n f df = Inr df1" and 2: "apply_in_all ns f df1 = Inr df'"
    by (auto simp: bind_err_Inr)
  from Cons.IH [OF 2] apply_in_frame [OF 1] show ?case by auto
qed

lemma map_err_Inl: "map_err f xs = Inl e \<Longrightarrow> \<exists>x \<in> set xs. f x = Inl e"
  by (induction xs) (auto split: sum.splits)

lemma apply_in_Inl:
  "apply_in name f df = Inl e \<Longrightarrow> \<exists>v. f v = Inl e"
  by (auto simp: apply_in_def col_apply_def bind_err_Inl dest: map_err_Inl split: option.splits if_splits)

lemma apply_in_all_Inl:
  "apply_in_all names f df = Inl e \<Longrightarrow> \<exists>v. f v = Inl e"
  by (induction names arbitrary: df) (auto simp: bind_err_Inl dest: apply_in_Inl)

lemma int_of_float_error: "int_of_float f = Inl e \<Longrightarrow> e = ValueError \<and> is_nan f \<or> e = OverflowError"
  by (cases f) auto

lemma except_ValueError_Inl: "except_ValueError r = Inl e \<longleftrightarrow> r = Inl e \<and> e \<noteq> ValueError"
  by (cases r; cases e) (auto simp: except_ValueError_def split: py_error.splits sum.splits)

lemma clean_numeric_value_error: "clean_numeric_value v = Inl e \<Longrightarrow> e = OverflowError"
  by (cases v)
     (auto simp: clean_numeric_value_chars bind_err_Inl float_of_int_def Let_def except_ValueError_Inl
       dest: py_float_error split: if_splits)

lemma suffix_loop_error: "suffix_loop ms u = Some (Inl e) \<Longrightarrow> e = OverflowError"
  by (induction ms u rule: suffix_loop.induct)
     (auto simp: except_ValueError_Inl bind_err_Inl dest: py_float_error int_of_float_error split: if_splits)

lemma clean_volume_value_error: "clean_volume_value v = Inl e \<Longrightarrow> e = OverflowError"
  by (cases v)
     (auto simp: clean_volume_value_def bind_err_Inl Let_def except_ValueError_Inl
       dest: py_float_error int_of_float_error suffix_loop_error split: if_splits option.splits)

lemma clean_data_error: "clean_data py_str df = Inl e \<Longrightarrow> e = OverflowError"
  by (auto simp: clean_data_def bind_err_Inl numeric_cell_def volume_cell_def market_cap_cell_def
        company_name_cell_def
      dest!: apply_in_all_Inl apply_in_Inl dest: clean_numeric_value_error clean_volume_value_error)

lemma keep_rows_zip:
  "keep_rows (map p vs) xs = map fst (filter (\<lambda>iv. p (snd iv)) (zip xs vs))"
proof (induction vs arbitrary: xs)
  case Nil
  then show ?case by (simp add: keep_rows_def)
next
  case (Cons v vs)
  then show ?case by (cases xs) (auto simp: keep_rows_def)
qed

lemma get_col_select_rows:
  "get_col name (select_rows flags df) = map_option (col_keep_rows flags) (get_col name df)"
proof -
  have "map_of (map (\<lambda>nc. (fst nc, g (snd nc))) cs) k = map_option g (map_of cs k)"
    for g :: "column \<Rightarrow> column" and cs k
    by (induction cs) auto
  then show ?thesis by (simp add: get_col_def select_rows_def)
qed

subsection \<open>Dropping failed rows\<close>

lemmas frame_eval =
  numeric_cell_def volume_cell_def market_cap_cell_def company_name_cell_def
  apply_in_def get_col_def set_col_def select_rows_def col_isna_def keep_rows_def col_apply_def
  infer_column_def fits_int64_def drop_error_rows_def opt_cell_def bind_err_def

lemma demo_clean: "clean_data (lib_str demo_lib) demo_raw = Inr demo_cleaned"
  by (simp add: clean_data_def numeric_columns_def demo_raw_def demo_cleaned_def frame_eval
     clean_numeric_value_chars clean_market_cap_value_def volume_eval string_eval float_eval)
lemma col_keep_rows_cells: "col_cells (col_keep_rows flags c) = keep_rows flags (col_cells c)"
  by (cases c) (simp_all add: keep_rows_def zip_map2 filter_map comp_def case_prod_unfold)

lemma keep_rows_isna: "list_all p (keep_rows (map p vs) vs)"
  unfolding keep_rows_def list_all_iff
proof
  fix x
  assume "x \<in> set (map snd (filter fst (zip (map p vs) vs)))"
  then obtain b where "(b, x) \<in> set (zip (map p vs) vs)" and "b"
    by auto
  then show "p x"
    by (auto simp: zip_map1 zip_same_conv_map)
qed

text \<open>
  Claim C7. When \<^verbatim>\<open>clean_data\<close> returns, the rows of its result are exactly the rows
  of the input whose \<^verbatim>\<open>error\<close> cell is null, in their order: the row labels are those
  of the null positions of the \<^verbatim>\<open>error\<close> column, the \<^verbatim>\<open>symbol\<close> and \<^verbatim>\<open>error\<close> columns are
  cut down to the same positions, and no cell of the remaining \<^verbatim>\<open>error\<close> column is set.
  Without an \<^verbatim>\<open>error\<close> column every row stays. The only exception \<^verbatim>\<open>clean_data\<close> can
  raise is an \<^verbatim>\<open>OverflowError\<close> from the conversion of an infinite volume or an
  oversized integer; then there is no cleaned dataset.
\<close>

theorem clean_data_drops_error_rows:
  "(clean_data py_str df = Inr df' \<longrightarrow>
      (case get_col ''error'' df of
         None \<Rightarrow>
           df_index df' = df_index df \<and> get_col ''symbol'' df' = get_col ''symbol'' df
       | Some e \<Rightarrow>
           df_index df' =
             map fst (filter (\<lambda>iv. pd_isna (snd iv)) (zip (df_index df) (col_cells e)))
           \<and> get_col ''symbol'' df' =
               map_option (col_keep_rows (col_isna e)) (get_col ''symbol'' df)
           \<and> get_col ''error'' df' = Some (col_keep_rows (col_isna e) e)
           \<and> list_all pd_isna (col_cells (col_keep_rows (col_isna e) e))))
   \<and> (clean_data py_str df = Inl err \<longrightarrow> err = OverflowError)"
proof (intro conjI impI)
  assume "clean_data py_str df = Inr df'"
  then obtain df1 df2 df3 where
    1: "apply_in_all numeric_columns numeric_cell (drop_error_rows df) = Inr df1" and
    2: "apply_in ''volume'' volume_cell df1 = Inr df2" and
    3: "apply_in ''market_cap'' (market_cap_cell py_str) df2 = Inr df3" and
    4: "apply_in ''company_name'' (company_name_cell py_str) df3 = Inr df'"
    unfolding clean_data_def bind_err_Inr by blast
  have idx: "df_index df' = df_index (drop_error_rows df)"
    using apply_in_all_frame [OF 1] apply_in_frame(1) [OF 2] apply_in_frame(1) [OF 3]
      apply_in_frame(1) [OF 4]
    by simp
  have other: "get_col name df' = get_col name (drop_error_rows df)"
    if "name = ''symbol'' \<or> name = ''error''" for name
    using that apply_in_all_frame [OF 1, of name] apply_in_frame(2) [OF 2, of name]
      apply_in_frame(2) [OF 3, of name] apply_in_frame(2) [OF 4, of name]
    by (auto simp: numeric_columns_def)
  show "case get_col ''error'' df of
         None \<Rightarrow>
           df_index df' = df_index df \<and> get_col ''symbol'' df' = get_col ''symbol'' df
       | Some e \<Rightarrow>
           df_index df' =
             map fst (filter (\<lambda>iv. pd_isna (snd iv)) (zip (df_index df) (col_cells e)))
           \<and> get_col ''symbol'' df' =
               map_option (col_keep_rows (col_isna e)) (get_col ''symbol'' df)
           \<and> get_col ''error'' df' = Some (col_keep_rows (col_isna e) e)
           \<and> list_all pd_isna (col_cells (col_keep_rows (col_isna e) e))"
  proof (cases "get_col ''error'' df")
    case None
    with idx other show ?thesis
      by (simp add: drop_error_rows_def)
  next
    case (Some e)
    have "df_index (drop_error_rows df) =
            map fst (filter (\<lambda>iv. pd_isna (snd iv)) (zip (df_index df) (col_cells e)))"
      using Some by (simp add: drop_error_rows_def select_rows_def col_isna_def keep_rows_zip)
    moreover have "get_col name (drop_error_rows df) =
            map_option (col_keep_rows (col_isna e)) (get_col name df)" for name
      using Some by (simp add: drop_error_rows_def get_col_select_rows)
    moreover have "list_all pd_isna (col_cells (col_keep_rows (col_isna e) e))"
      by (simp add: col_keep_rows_cells col_isna_def keep_rows_isna)
    ultimately show ?thesis
      using Some idx other by simp
  qed
next
  assume "clean_data py_str df = Inl err"
  then show "err = OverflowError" by (rule clean_data_error)
qed

theorem clean_data_drops_error_rows_witness:
  "clean_data (lib_str demo_lib) demo_raw = Inr demo_cleaned
   \<and> df_index demo_cleaned = [0, 2, 3]
   \<and> get_col ''symbol'' demo_cleaned = Some (ObjCol [PStr ''AAPL'', PStr ''TSLA'', PStr ''NVDA''])
   \<and> get_col ''error'' demo_cleaned = Some (ObjCol [PFloat NaN, PFloat NaN, PFloat NaN])"
  using demo_clean clean_data_drops_error_rows [of "lib_str demo_lib" demo_raw demo_cleaned]
  by (simp add: get_col_def demo_raw_def col_isna_def keep_rows_def)

subsection \<open>Evaluating the steps\<close>

lemma bind_err_weak_cong: "r = r' \<Longrightarrow> bind_err r f = bind_err r' f"
  by simp

lemma bind_err_simps: "bind_err (Inr x) f = f x" "bind_err (Inl e) f = Inl e"
  by (simp_all add: bind_err_def)

lemmas frame_steps =
  numeric_cell_def volume_cell_def market_cap_cell_def company_name_cell_def
  apply_in_def get_col_def set_col_def select_rows_def col_isna_def keep_rows_def col_apply_def
  infer_column_def fits_int64_def drop_error_rows_def opt_cell_def bind_err_simps

lemmas pipeline_eval =
  standardize_formats_def to_datetime_def to_numeric_def numeric_in_def astype_Int64_def
  numeric_cells_def handle_missing_values_def fill_numeric_def price_columns_def
  change_columns_def col_fillna_median_def col_fillna_from_def median_def
  add_derived_metrics_def add_momentum_def add_volatility_def derive_in_def ratio_percent_def
  categorize_performance_def performance_tier_def
  fsub_def fadd_def fdiv_def fmul_def signed_inf_def signed_zero_def

lemma demo_standardize: "standardize_formats demo_lib demo_cleaned = Inr demo_standardized"
  by (simp add: demo_lib_def demo_cleaned_def demo_standardized_def numeric_columns_def
      pipeline_eval frame_steps cong: bind_err_weak_cong)

lemma demo_fill: "handle_missing_values demo_standardized = Inr demo_filled"
  by (simp add: demo_standardized_def demo_filled_def pipeline_eval frame_steps List.map_filter_def
     cong: bind_err_weak_cong)

lemma demo_derive: "add_derived_metrics demo_lib demo_filled = Inr demo_processed"
  by (simp add: demo_lib_def demo_filled_def demo_processed_def pipeline_eval frame_steps float_eval
     cong: bind_err_weak_cong)

subsection \<open>Numeric columns after \<^verbatim>\<open>standardize_formats\<close>\<close>

lemma to_numeric_numeric: "is_numeric (to_numeric coerce c)"
  by (cases c) (auto simp: to_numeric_def numeric_cells_def)

lemma to_numeric_id: "is_numeric c \<Longrightarrow> to_numeric coerce c = c"
  by (cases c) (simp_all add: to_numeric_def)

lemma to_numeric_idem: "to_numeric coerce (to_numeric coerce c) = to_numeric coerce c"
  by (simp add: to_numeric_id to_numeric_numeric)

lemma numeric_in_get:
  "get_col name (numeric_in coerce col df) =
     (if name = col then map_option (to_numeric coerce) (get_col name df) else get_col name df)"
  by (cases "get_col col df") (auto simp: numeric_in_def get_col_set_col)

lemma numeric_in_index: "df_index (numeric_in coerce col df) = df_index df"
  by (cases "get_col col df") (auto simp: numeric_in_def set_col_index)

lemma fold_numeric_in_get:
  "get_col name (fold (numeric_in coerce) names df) =
     (if name \<in> set names then map_option (to_numeric coerce) (get_col name df)
      else get_col name df)"
proof (induction names arbitrary: df)
  case Nil
  then show ?case by simp
next
  case (Cons col names)
  show ?case
    by (cases "get_col name df")
       (auto simp: Cons.IH numeric_in_get to_numeric_idem)
qed

lemma fold_numeric_in_index: "df_index (fold (numeric_in coerce) names df) = df_index df"
  by (induction names arbitrary: df) (simp_all add: numeric_in_index)

lemma standardize_formats_other:
  assumes "standardize_formats lib df0 = Inr df"
    and "name \<noteq> ''timestamp''" and "name \<noteq> ''volume''" and "name \<noteq> ''processed_at''"
  shows "get_col name df =
     (if name \<in> set numeric_columns
      then map_option (to_numeric (lib_to_numeric lib)) (get_col name df0)
      else get_col name df0)"
proof -
  from assms(1) obtain df1 df3 where
    1: "(case get_col ''timestamp'' df0 of
          None \<Rightarrow> Inr df0
        | Some c \<Rightarrow>
            bind_err (to_datetime (lib_to_datetime lib) c) (\<lambda>c'. Inr (set_col ''timestamp'' c' df0)))
        = Inr df1" and
    3: "(case get_col ''volume'' (fold (numeric_in (lib_to_numeric lib)) numeric_columns df1) of
               None \<Rightarrow> Inr (fold (numeric_in (lib_to_numeric lib)) numeric_columns df1)
             | Some c \<Rightarrow>
                 bind_err (astype_Int64 (to_numeric (lib_to_numeric lib) c))
                   (\<lambda>c'. Inr (set_col ''volume'' c'
                      (fold (numeric_in (lib_to_numeric lib)) numeric_columns df1)))) = Inr df3" and
    4: "df = set_col ''processed_at''
              (TimeCol (replicate (length (df_index df3)) (Some (lib_now lib)))) df3"
    unfolding standardize_formats_def bind_err_Inr Let_def by blast
  have a: "get_col name df1 = get_col name df0"
    using 1 assms(2) by (auto simp: bind_err_Inr get_col_set_col split: option.splits)
  have b: "get_col name df3 = get_col name (fold (numeric_in (lib_to_numeric lib)) numeric_columns df1)"
    using 3 assms(3) by (auto simp: bind_err_Inr get_col_set_col split: option.splits)
  have c: "get_col name df = get_col name df3"
    using 4 assms(4) by (simp add: get_col_set_col)
  show ?thesis
    unfolding c b fold_numeric_in_get a ..
qed


subsection \<open>Forward fill\<close>

lemma last_seen_Cons:
  "last_seen isnull (x # xs) =
     (case last_seen isnull xs of Some v \<Rightarrow> Some v | None \<Rightarrow> if isnull x then None else Some x)"
  by (simp add: last_seen_def split: list.splits)

lemma ffill_length [simp]: "length (ffill isnull seen xs) = length xs"
  by (induction xs arbitrary: seen) auto

lemma ffill_nth:
  "i < length xs \<Longrightarrow>
   ffill isnull seen xs ! i =
     (if isnull (xs ! i)
      then (case last_seen isnull (take i xs) of
              Some v \<Rightarrow> v
            | None \<Rightarrow> (case seen of None \<Rightarrow> xs ! i | Some v \<Rightarrow> v))
      else xs ! i)"
proof (induction xs arbitrary: seen i)
  case Nil
  then show ?case by simp
next
  case (Cons x xs)
  show ?case
  proof (cases i)
    case 0
    then show ?thesis by (auto simp: last_seen_def split: option.splits)
  next
    case (Suc j)
    with Cons.prems have j: "j < length xs" by simp
    show ?thesis
      using Cons.IH [OF j] Suc
      by (auto simp: last_seen_Cons split: option.splits)
  qed
qed

lemma ffill_idem:
  "seen = None \<or> (\<exists>v. seen = Some v \<and> \<not> isnull v) \<Longrightarrow>
   ffill isnull seen (ffill isnull seen xs) = ffill isnull seen xs"
  by (induction xs arbitrary: seen) (auto split: option.splits)

lemma last_seen_map:
  "(\<And>x. pd_isna (cell x) = isnull x) \<Longrightarrow>
   nearest_preceding (map cell xs) i = map_option cell (last_seen isnull (take i xs))"
  by (simp add: nearest_preceding_def last_seen_def take_map rev_map filter_map comp_def
      split: list.splits)

lemma ffill_cells:
  assumes "\<And>x. pd_isna (cell x) = isnull x" and "i < length xs"
  shows "map cell (ffill isnull None xs) ! i =
     (if pd_isna (map cell xs ! i)
      then (case nearest_preceding (map cell xs) i of None \<Rightarrow> map cell xs ! i | Some v \<Rightarrow> v)
      else map cell xs ! i)"
  using assms by (simp add: ffill_nth last_seen_map split: option.splits)

lemma col_ffill_cells:
  assumes "is_numeric c" and "i < length (col_cells c)"
  shows "col_cells (col_ffill c) ! i =
     (if pd_isna (col_cells c ! i)
      then (case nearest_preceding (col_cells c) i of None \<Rightarrow> col_cells c ! i | Some v \<Rightarrow> v)
      else col_cells c ! i)"
proof (cases c)
  case (FloatCol xs)
  with assms ffill_cells [of PFloat is_nan i xs] show ?thesis
    by (auto split: option.splits)
next
  case (NullIntCol xs)
  with assms ffill_cells [of "\<lambda>x. case x of None \<Rightarrow> PNone | Some i \<Rightarrow> PInt i" "\<lambda>x. x = None" i xs]
  show ?thesis by (auto split: option.splits)
next
  case (IntCol xs)
  with assms show ?thesis by simp
qed (use assms in simp_all)

lemma col_ffill_length: "length (col_cells (col_ffill c)) = length (col_cells c)"
  by (cases c) simp_all

lemma col_ffill_idem: "col_ffill (col_ffill c) = col_ffill c"
  by (cases c) (simp_all add: ffill_idem)

lemma fill_numeric_result:
  assumes "fill_numeric col df = Inr df'"
  shows "\<exists>c c'. get_col col df = Some c \<and> df' = set_col col c' df \<and>
           (col \<in> set price_columns \<longrightarrow> c' = col_ffill c)"
proof -
  obtain c where c: "get_col col df = Some c"
    using assms by (cases "get_col col df") (simp_all add: fill_numeric_def)
  show ?thesis
  proof (cases "col \<in> set price_columns")
    case True
    with assms c have "df' = set_col col (col_ffill c) df"
      by (simp add: fill_numeric_def)
    with c show ?thesis by blast
  next
    case price: False
    show ?thesis
    proof (cases "col \<in> set change_columns")
      case True
      with assms c price have "df' = set_col col (col_fillna_zero c) df"
        by (simp add: fill_numeric_def)
      with c price show ?thesis by blast
    next
      case False
      with assms c price obtain c' where "df' = set_col col c' df"
        by (auto simp: fill_numeric_def bind_err_Inr)
      with c price show ?thesis by blast
    qed
  qed
qed

lemma fill_numeric_other:
  assumes "fill_numeric col df = Inr df'" and "name \<noteq> col"
  shows "get_col name df' = get_col name df"
  using fill_numeric_result [OF assms(1)] assms(2) by (auto simp: get_col_set_col)

lemma fill_numeric_price:
  assumes "fill_numeric col df = Inr df'" and "name \<in> set price_columns"
    and "get_col name df = Some c"
  shows "get_col name df' = Some (if col = name then col_ffill c else c)"
proof (cases "col = name")
  case True
  with fill_numeric_result [OF assms(1)] assms(2,3) show ?thesis
    by (auto simp: get_col_set_col)
next
  case False
  with fill_numeric_other [OF assms(1), of name] assms(3) show ?thesis by simp
qed

lemma fill_loop_price:
  assumes "fill_loop cols df = Inr df'" and "name \<in> set price_columns" and "get_col name df = Some c"
  shows "get_col name df' = Some (if name \<in> set cols then col_ffill c else c)"
  using assms
proof (induction cols arbitrary: df c)
  case Nil
  then show ?case by simp
next
  case (Cons col cols)
  from Cons.prems(1) obtain df1 where 1: "fill_numeric col df = Inr df1"
    and 2: "fill_loop cols df1 = Inr df'"
    by (auto simp: bind_err_Inr)
  from fill_numeric_price [OF 1 Cons.prems(2,3)]
  have 3: "get_col name df1 = Some (if col = name then col_ffill c else c)" .
  from Cons.IH [OF 2 Cons.prems(2) 3] show ?case
    by (auto simp: col_ffill_idem)
qed

lemma numeric_names:
  "get_col name df = Some c \<Longrightarrow> is_numeric c \<Longrightarrow>
   name \<in> set (map fst (filter (\<lambda>nc. is_numeric (snd nc)) (df_columns df)))"
proof -
  assume g: "get_col name df = Some c" and num: "is_numeric c"
  from g have "(name, c) \<in> set (df_columns df)"
    unfolding get_col_def by (rule map_of_SomeD)
  with num have "(name, c) \<in> set (filter (\<lambda>nc. is_numeric (snd nc)) (df_columns df))"
    by simp
  then have "fst (name, c) \<in> fst ` set (filter (\<lambda>nc. is_numeric (snd nc)) (df_columns df))"
    by (rule imageI)
  then show ?thesis by simp
qed

lemma handle_missing_values_price:
  assumes "handle_missing_values df = Inr df'" and "name \<in> set price_columns"
    and "get_col name df = Some c" and "is_numeric c"
  shows "get_col name df' = Some (col_ffill c)"
proof -
  from assms(1) obtain df1 where
    1: "fill_loop (map fst (filter (\<lambda>nc. is_numeric (snd nc)) (df_columns df))) df = Inr df1"
    and 2: "(case get_col ''company_name'' df1 of
            None \<Rightarrow> Inr df1
          | Some c \<Rightarrow>
              (case get_col ''symbol'' df1 of
                 None \<Rightarrow> Inl KeyError
               | Some s \<Rightarrow> Inr (set_col ''company_name'' (col_fillna_from c s) df1))) = Inr df'"
    by (auto simp: handle_missing_values_def bind_err_Inr)
  from fill_loop_price [OF 1 assms(2,3)] numeric_names [OF assms(3,4)]
  have "get_col name df1 = Some (col_ffill c)" by simp
  moreover have "name \<noteq> ''company_name''" using assms(2) by (auto simp: price_columns_def)
  ultimately show ?thesis using 2
    by (auto simp: get_col_set_col split: option.splits)
qed

text \<open>
  Claim C6. After \<^verbatim>\<open>standardize_formats\<close> the price columns (\<^verbatim>\<open>current_price\<close>,
  \<^verbatim>\<open>previous_close\<close>, \<^verbatim>\<open>open\<close>) are numeric. When \<^verbatim>\<open>handle_missing_values\<close> returns, such
  a column is the forward fill of the input column: it has the same length, a cell that
  was not null is unchanged, a null cell holds the nearest preceding cell of the input
  that is not null, and a null cell with no such cell before it stays null. The column
  \<open>[10, null, null, 20]\<close> becomes \<open>[10, 10, 10, 20]\<close>.
\<close>

theorem handle_missing_values_forward_fill:
  "(handle_missing_values df = Inr df' \<and> name \<in> set price_columns
      \<and> get_col name df = Some c \<and> is_numeric c \<longrightarrow>
      get_col name df' = Some (col_ffill c)
      \<and> length (col_cells (col_ffill c)) = length (col_cells c)
      \<and> (\<forall>i < length (col_cells c).
            col_cells (col_ffill c) ! i =
              (if pd_isna (col_cells c ! i)
               then (case nearest_preceding (col_cells c) i of
                       None \<Rightarrow> col_cells c ! i
                     | Some v \<Rightarrow> v)
               else col_cells c ! i)))
   \<and> (standardize_formats lib df0 = Inr df \<and> name \<in> set price_columns
        \<and> get_col name df = Some c \<longrightarrow> is_numeric c)
   \<and> col_ffill (FloatCol [Fin 10, NaN, NaN, Fin 20]) = FloatCol [Fin 10, Fin 10, Fin 10, Fin 20]"
proof (intro conjI impI allI)
  assume a: "handle_missing_values df = Inr df' \<and> name \<in> set price_columns
      \<and> get_col name df = Some c \<and> is_numeric c"
  then show "get_col name df' = Some (col_ffill c)"
    using handle_missing_values_price [of df df' name c] by blast
  show "length (col_cells (col_ffill c)) = length (col_cells c)"
    by (rule col_ffill_length)
  fix i
  assume "i < length (col_cells c)"
  with a show "col_cells (col_ffill c) ! i =
              (if pd_isna (col_cells c ! i)
               then (case nearest_preceding (col_cells c) i of
                       None \<Rightarrow> col_cells c ! i
                     | Some v \<Rightarrow> v)
               else col_cells c ! i)"
    using col_ffill_cells [of c i] by blast
next
  assume b: "standardize_formats lib df0 = Inr df \<and> name \<in> set price_columns
        \<and> get_col name df = Some c"
  then have name: "name \<in> set numeric_columns" "name \<noteq> ''timestamp''" "name \<noteq> ''volume''"
    "name \<noteq> ''processed_at''"
    by (auto simp: price_columns_def numeric_columns_def)
  from b standardize_formats_other [of lib df0 df name] name
  have "Some c = map_option (to_numeric (lib_to_numeric lib)) (get_col name df0)"
    by simp
  then obtain c0 where "c = to_numeric (lib_to_numeric lib) c0"
    by (cases "get_col name df0") simp_all
  then show "is_numeric c"
    by (simp add: to_numeric_numeric)
next
  show "col_ffill (FloatCol [Fin 10, NaN, NaN, Fin 20]) = FloatCol [Fin 10, Fin 10, Fin 10, Fin 20]"
    by simp
qed

theorem handle_missing_values_forward_fill_witness:
  "standardize_formats demo_lib demo_cleaned = Inr demo_standardized
   \<and> handle_missing_values demo_standardized = Inr demo_filled
   \<and> get_col ''current_price'' demo_standardized = Some (FloatCol [Fin 110, Fin 100, NaN])
   \<and> get_col ''current_price'' demo_filled = Some (FloatCol [Fin 110, Fin 100, Fin 100])
   \<and> col_cells (col_ffill (FloatCol [Fin 110, Fin 100, NaN])) ! 2 = PFloat (Fin 100)"
proof -
  have col: "get_col ''current_price'' demo_standardized = Some (FloatCol [Fin 110, Fin 100, NaN])"
    by (simp add: get_col_def demo_standardized_def)
  have price: "''current_price'' \<in> set price_columns"
    by (simp add: price_columns_def)
  have i: "(2::nat) < length (col_cells (FloatCol [Fin 110, Fin 100, NaN]))"
    by simp
  from handle_missing_values_forward_fill
    [of demo_standardized demo_filled "''current_price''" "FloatCol [Fin 110, Fin 100, NaN]"
        demo_lib demo_cleaned]
    demo_standardize demo_fill col price i
  show ?thesis
    by (simp add: nearest_preceding_def last_seen_def)
qed

subsection \<open>Momentum and volatility\<close>

lemma round_double_not_nan: "\<not> is_nan (round_double q)"
  by (simp add: round_double_def Let_def)

lemma fmul_100_nan: "is_nan (fmul y (Fin 100)) = is_nan y"
  by (cases y) (simp_all add: fmul_def signed_inf_def signed_zero_def round_double_not_nan)

lemma fdiv_nan:
  "is_nan (fdiv x d) = (is_nan x \<or> is_nan d \<or> (is_inf x \<and> is_inf d) \<or> (is_zero x \<and> is_zero d))"
  by (cases x; cases d)
     (simp_all add: fdiv_def signed_inf_def signed_zero_def round_double_not_nan)

lemma fadd_nan:
  "is_nan (fadd a b) = (is_nan a \<or> is_nan b \<or> (is_inf a \<and> is_inf b \<and> a \<noteq> b))"
  by (cases a; cases b) (simp_all add: fadd_def round_double_not_nan)

lemma fneg_props [simp]: "is_nan (fneg b) = is_nan b" "is_inf (fneg b) = is_inf b"
  by (cases b; simp)+

lemma price_momentum_nan:
  "is_nan (price_momentum c p) =
     (is_nan c \<or> is_nan p \<or> is_inf p \<or> (is_zero p \<and> is_zero (fsub c p)))"
proof -
  have 1: "is_nan (fsub c p) \<longrightarrow> is_nan c \<or> is_nan p \<or> is_inf p"
    by (auto simp: fsub_def fadd_nan)
  have 2: "is_inf p \<longrightarrow> is_nan (fsub c p) \<or> is_inf (fsub c p)"
    by (cases c; cases p) (simp_all add: fsub_def fadd_def)
  have 3: "is_nan c \<or> is_nan p \<longrightarrow> is_nan (fsub c p)"
    by (auto simp: fsub_def fadd_nan)
  show ?thesis
    unfolding price_momentum_def fmul_100_nan fdiv_nan
    using 1 2 3 by (cases p) auto
qed

lemma daily_volatility_nan:
  "is_nan (daily_volatility h l c) =
     (is_nan (fsub h l) \<or> is_nan c \<or> (is_inf (fsub h l) \<and> is_inf c)
      \<or> (is_zero (fsub h l) \<and> is_zero c))"
  by (simp add: daily_volatility_def fmul_100_nan fdiv_nan)

lemma price_momentum_zero_close:
  assumes "is_zero p" and "\<not> is_nan c" and "\<not> is_zero (fsub c p)"
  shows "is_inf (price_momentum c p)"
proof -
  define x where "x = fsub c p"
  have "\<not> is_nan x"
    using assms(1,2) by (cases p) (auto simp: x_def fsub_def fadd_nan)
  moreover have "\<not> is_zero x"
    using assms(3) by (simp add: x_def)
  ultimately have "is_inf (fdiv x p)"
    using assms(1) by (cases p; cases x) (simp_all add: fdiv_def signed_inf_def)
  then have "is_inf (fmul (fdiv x p) (Fin 100))"
    by (cases "fdiv x p") (simp_all add: fmul_def signed_inf_def)
  then show ?thesis by (simp add: price_momentum_def x_def)
qed

lemma price_momentum_example: "price_momentum (Fin 110) (Fin 100) = Fin 10"
  by (simp add: price_momentum_def fsub_def fadd_def fdiv_def fmul_def float_eval)

lemma price_momentum_zero_example: "price_momentum (Fin 100) (Fin 0) = PInf"
  by (simp add: price_momentum_def fsub_def fadd_def fdiv_def fmul_def signed_inf_def float_eval)

lemma derive_in_get:
  "derive_in src dst f df = Inr df' \<Longrightarrow> name \<noteq> dst \<Longrightarrow> get_col name df' = get_col name df"
  by (auto simp: derive_in_def bind_err_Inr get_col_set_col split: option.splits)

lemma add_volatility_get:
  "add_volatility lib df = Inr df' \<Longrightarrow> name \<noteq> ''daily_volatility'' \<Longrightarrow>
   get_col name df' = get_col name df"
  by (auto simp: add_volatility_def bind_err_Inr get_col_set_col split: option.splits)

lemma add_momentum_get:
  "add_momentum lib df = Inr df' \<Longrightarrow> name \<noteq> ''price_momentum'' \<Longrightarrow>
   get_col name df' = get_col name df"
  by (auto simp: add_momentum_def bind_err_Inr get_col_set_col split: option.splits)

lemma ratio_percent_float:
  "ratio_percent other (FloatCol xs) (FloatCol ys) (FloatCol zs) =
     Inr (FloatCol (map (\<lambda>(x, y, z). fmul (fdiv (fsub x y) z) (Fin 100)) (zip xs (zip ys zs))))"
  by (simp add: ratio_percent_def)

lemma zip_same_map: "map (\<lambda>(x, y, z). g x y z) (zip xs (zip ys ys)) = map (\<lambda>(x, y). g x y y) (zip xs ys)"
  by (induction xs arbitrary: ys) (auto split: list.splits simp: zip_Cons1)

lemma add_momentum_float:
  assumes "add_momentum lib df = Inr df'"
    and "get_col ''current_price'' df = Some (FloatCol cs)"
    and "get_col ''previous_close'' df = Some (FloatCol ps)"
  shows "get_col ''price_momentum'' df' =
           Some (FloatCol (map (\<lambda>(c, p). price_momentum c p) (zip cs ps)))"
  using assms
  by (auto simp: add_momentum_def ratio_percent_float bind_err_simps get_col_set_col
      price_momentum_def zip_same_map)

lemma add_volatility_float:
  assumes "add_volatility lib df = Inr df'"
    and "get_col ''day_high'' df = Some (FloatCol hs)"
    and "get_col ''day_low'' df = Some (FloatCol ls)"
    and "get_col ''current_price'' df = Some (FloatCol cs)"
  shows "get_col ''daily_volatility'' df' =
           Some (FloatCol (map (\<lambda>(h, l, c). daily_volatility h l c) (zip hs (zip ls cs))))"
  using assms
  by (auto simp: add_volatility_def ratio_percent_float bind_err_simps get_col_set_col
      daily_volatility_def)


lemma add_derived_metrics_keeps:
  assumes "add_derived_metrics lib df = Inr df'"
  shows "\<exists>df1 df2. add_momentum lib df = Inr df1 \<and> add_volatility lib df1 = Inr df2
    \<and> (\<forall>name. name \<noteq> ''market_cap_category'' \<longrightarrow> name \<noteq> ''performance_category'' \<longrightarrow>
           get_col name df' = get_col name df2)"
proof -
  from assms obtain df1 df2 df3 where
    1: "add_momentum lib df = Inr df1" and 2: "add_volatility lib df1 = Inr df2" and
    3: "derive_in ''market_cap'' ''market_cap_category''
          (\<lambda>v. Inr (PStr (categorize_market_cap v))) df2 = Inr df3" and
    4: "derive_in ''change_percent'' ''performance_category''
          (\<lambda>v. bind_err (categorize_performance v) (\<lambda>s. Inr (PStr s))) df3 = Inr df'"
    unfolding add_derived_metrics_def bind_err_Inr by blast
  have "get_col name df' = get_col name df2"
    if "name \<noteq> ''market_cap_category''" "name \<noteq> ''performance_category''" for name
    using derive_in_get [OF 3, of name] derive_in_get [OF 4, of name] that by simp
  with 1 2 show ?thesis by blast
qed

text \<open>
  Claim C1, as stated, fails: nothing in \<^verbatim>\<open>add_derived_metrics\<close> tests for a zero
  previous close. For a current price of 100 and a previous close of 0 the momentum is
  positive infinity, which is not null.
\<close>

theorem price_momentum_zero_counterexample:
  "price_momentum (Fin 100) (Fin 0) = PInf
   \<and> \<not> pd_isna (PFloat (price_momentum (Fin 100) (Fin 0)))"
  by (simp add: price_momentum_zero_example)

text \<open>
  Claim C1, amended. On \<^verbatim>\<open>float64\<close> columns \<^verbatim>\<open>add_derived_metrics\<close> sets, row by row,
  \<^verbatim>\<open>price_momentum\<close> to \<open>(current_price - previous_close) / previous_close * 100\<close> and
  \<^verbatim>\<open>daily_volatility\<close> to \<open>(day_high - day_low) / current_price * 100\<close> in float
  arithmetic, without a guard. The momentum is null exactly when an operand is null,
  the previous close is infinite, or the previous close and the difference are both
  zero; with a zero previous close and a difference that is not zero it is an infinity.
  The volatility is null exactly when the difference is null, the current price is
  null, both are infinite or both are zero. For 110 and 100 the momentum is 10.0, for
  100 and 0 it is positive infinity.
\<close>

theorem price_momentum_unguarded:
  "(add_derived_metrics lib df = Inr df'
      \<and> get_col ''current_price'' df = Some (FloatCol cs)
      \<and> get_col ''previous_close'' df = Some (FloatCol ps) \<longrightarrow>
      get_col ''price_momentum'' df' =
        Some (FloatCol (map (\<lambda>(c, p). price_momentum c p) (zip cs ps))))
   \<and> (add_derived_metrics lib df = Inr df'
      \<and> get_col ''day_high'' df = Some (FloatCol hs)
      \<and> get_col ''day_low'' df = Some (FloatCol ls)
      \<and> get_col ''current_price'' df = Some (FloatCol cs) \<longrightarrow>
      get_col ''daily_volatility'' df' =
        Some (FloatCol (map (\<lambda>(h, l, c). daily_volatility h l c) (zip hs (zip ls cs)))))
   \<and> price_momentum c p = fmul (fdiv (fsub c p) p) (Fin 100)
   \<and> daily_volatility h l c = fmul (fdiv (fsub h l) c) (Fin 100)
   \<and> is_nan (price_momentum c p) =
        (is_nan c \<or> is_nan p \<or> is_inf p \<or> (is_zero p \<and> is_zero (fsub c p)))
   \<and> (is_zero p \<and> \<not> is_nan c \<and> \<not> is_zero (fsub c p) \<longrightarrow> is_inf (price_momentum c p))
   \<and> is_nan (daily_volatility h l c) =
        (is_nan (fsub h l) \<or> is_nan c \<or> (is_inf (fsub h l) \<and> is_inf c)
         \<or> (is_zero (fsub h l) \<and> is_zero c))
   \<and> price_momentum (Fin 110) (Fin 100) = Fin 10
   \<and> price_momentum (Fin 100) (Fin 0) = PInf"
proof (intro conjI impI)
  assume a: "add_derived_metrics lib df = Inr df'
      \<and> get_col ''current_price'' df = Some (FloatCol cs)
      \<and> get_col ''previous_close'' df = Some (FloatCol ps)"
  then obtain df1 df2 where 1: "add_momentum lib df = Inr df1"
    and 2: "add_volatility lib df1 = Inr df2"
    and 3: "get_col ''price_momentum'' df' = get_col ''price_momentum'' df2"
    using add_derived_metrics_keeps [of lib df df'] by auto
  from add_momentum_float [OF 1] a add_volatility_get [OF 2, of "''price_momentum''"] 3
  show "get_col ''price_momentum'' df' =
        Some (FloatCol (map (\<lambda>(c, p). price_momentum c p) (zip cs ps)))"
    by simp
next
  assume a: "add_derived_metrics lib df = Inr df'
      \<and> get_col ''day_high'' df = Some (FloatCol hs)
      \<and> get_col ''day_low'' df = Some (FloatCol ls)
      \<and> get_col ''current_price'' df = Some (FloatCol cs)"
  then obtain df1 df2 where 1: "add_momentum lib df = Inr df1"
    and 2: "add_volatility lib df1 = Inr df2"
    and 3: "get_col ''daily_volatility'' df' = get_col ''daily_volatility'' df2"
    using add_derived_metrics_keeps [of lib df df'] by auto
  have "get_col ''day_high'' df1 = Some (FloatCol hs)" "get_col ''day_low'' df1 = Some (FloatCol ls)"
    "get_col ''current_price'' df1 = Some (FloatCol cs)"
    using a add_momentum_get [OF 1] by simp_all
  from add_volatility_float [OF 2 this] 3
  show "get_col ''daily_volatility'' df' =
        Some (FloatCol (map (\<lambda>(h, l, c). daily_volatility h l c) (zip hs (zip ls cs))))"
    by simp
next
  assume "is_zero p \<and> \<not> is_nan c \<and> \<not> is_zero (fsub c p)"
  then show "is_inf (price_momentum c p)"
    by (simp add: price_momentum_zero_close)
next
  show "price_momentum c p = fmul (fdiv (fsub c p) p) (Fin 100)"
    by (simp add: price_momentum_def)
  show "daily_volatility h l c = fmul (fdiv (fsub h l) c) (Fin 100)"
    by (simp add: daily_volatility_def)
qed (rule price_momentum_nan daily_volatility_nan price_momentum_example
       price_momentum_zero_example)+

theorem price_momentum_unguarded_witness:
  "add_derived_metrics demo_lib demo_filled = Inr demo_processed
   \<and> get_col ''current_price'' demo_filled = Some (FloatCol [Fin 110, Fin 100, Fin 100])
   \<and> get_col ''previous_close'' demo_filled = Some (FloatCol [Fin 100, Fin 0, Fin 0])
   \<and> get_col ''price_momentum'' demo_processed =
       Some (FloatCol (map (\<lambda>(c, p). price_momentum c p)
                         (zip [Fin 110, Fin 100, Fin 100] [Fin 100, Fin 0, Fin 0])))
   \<and> is_zero (Fin 0) \<and> \<not> is_nan (Fin 100) \<and> \<not> is_zero (fsub (Fin 100) (Fin 0))
   \<and> is_inf (price_momentum (Fin 100) (Fin 0))"
proof -
  have cp: "get_col ''current_price'' demo_filled = Some (FloatCol [Fin 110, Fin 100, Fin 100])"
    and pc: "get_col ''previous_close'' demo_filled = Some (FloatCol [Fin 100, Fin 0, Fin 0])"
    by (simp_all add: get_col_def demo_filled_def)
  have diff: "\<not> is_zero (fsub (Fin 100) (Fin 0))"
    by (simp add: fsub_def fadd_def float_eval)
  note t = price_momentum_unguarded
    [of demo_lib demo_filled demo_processed "[Fin 110, Fin 100, Fin 100]"
        "[Fin 100, Fin 0, Fin 0]" "[]" "[]" "Fin 100" "Fin 0" NaN NaN]
  have momentum: "get_col ''price_momentum'' demo_processed =
       Some (FloatCol (map (\<lambda>(c, p). price_momentum c p)
                         (zip [Fin 110, Fin 100, Fin 100] [Fin 100, Fin 0, Fin 0])))"
    by (rule mp [OF conjunct1 [OF t]]) (intro conjI demo_derive cp pc)
  have inf: "is_inf (price_momentum (Fin 100) (Fin 0))"
    by (rule mp [OF t [THEN conjunct2, THEN conjunct2, THEN conjunct2, THEN conjunct2,
                       THEN conjunct2, THEN conjunct1]])
       (simp add: diff)
  from demo_derive cp pc momentum diff inf show ?thesis
    by simp
qed

subsection \<open>\<^verbatim>\<open>process_data\<close>\<close>

text \<open>
  Claim C10. \<^verbatim>\<open>process_data\<close> never raises: every exception of the load or of a step
  (all of them are \<^verbatim>\<open>Exception\<close>s) ends in the result \<^verbatim>\<open>None\<close>, and so does an empty
  dataset. It returns a dataset only when the file was read, the dataset is not empty
  and each of the four steps returned; the dataset is then the result of the last step.
\<close>

theorem process_data_never_raises:
  "process_data lib input_file =
     Inr (case lib_read_csv lib input_file of
            Inl e \<Rightarrow> None
          | Inr df \<Rightarrow>
              if df_empty df then None
              else (case clean_data (lib_str lib) df of
                      Inl e \<Rightarrow> None
                    | Inr df1 \<Rightarrow>
                        (case standardize_formats lib df1 of
                           Inl e \<Rightarrow> None
                         | Inr df2 \<Rightarrow>
                             (case handle_missing_values df2 of
                                Inl e \<Rightarrow> None
                              | Inr df3 \<Rightarrow>
                                  (case add_derived_metrics lib df3 of
                                     Inl e \<Rightarrow> None
                                   | Inr df4 \<Rightarrow> Some df4)))))"
  by (simp add: process_data_def pipeline_def except_Exception_def bind_err_def
      split: sum.splits)

subsection \<open>The batch\<close>

lemma has_key_append: "has_key k (d @ d') \<longleftrightarrow> has_key k d \<or> has_key k d'"
  by (auto simp: has_key_def)

lemma has_key_opt_item: "has_key k (opt_item k' v) \<longleftrightarrow> k = k' \<and> v \<noteq> None"
  by (cases v) (auto simp: has_key_def opt_item_def)

lemma has_key_Nil: "\<not> has_key k []"
  by (simp add: has_key_def)

lemma has_key_Cons: "has_key k ((k', v) # d) \<longleftrightarrow> k = k' \<or> has_key k d"
  by (auto simp: has_key_def)

lemma yahoo_record_no_error: "\<not> has_key ''error'' (yahoo_record symbol stamp pf)"
  by (simp add: yahoo_record_def has_key_append has_key_opt_item has_key_Cons has_key_Nil)

lemma scrape_stock_data_error:
  "has_key ''error'' (scrape_stock_data fetch clock symbol) \<longleftrightarrow> isl (fetch symbol)"
  by (cases "fetch symbol")
     (simp_all add: scrape_stock_data_def scrape_yahoo_finance_def yahoo_record_no_error Let_def
        has_key_Cons has_key_Nil)

lemma scrape_stock_data_success:
  "fetch symbol = Inr pf \<Longrightarrow>
   scrape_stock_data fetch clock symbol = yahoo_record symbol (clock symbol) pf"
  by (simp add: scrape_stock_data_def scrape_yahoo_finance_def yahoo_record_no_error Let_def)

lemma scrape_loop_filter:
  "scrape_loop fetch clock symbols acc =
     acc @ map (scrape_stock_data fetch clock) (filter (\<lambda>s. \<not> isl (fetch s)) symbols)"
  by (induction symbols arbitrary: acc) (simp_all add: Let_def scrape_stock_data_error)

lemma map_scrape_stock_data_success:
  "map (scrape_stock_data fetch clock) (filter (\<lambda>s. \<not> isl (fetch s)) symbols) =
   map (\<lambda>s. yahoo_record s (clock s) (projr (fetch s))) (filter (\<lambda>s. \<not> isl (fetch s)) symbols)"
proof (rule map_cong [OF refl])
  fix s
  assume "s \<in> set (filter (\<lambda>s. \<not> isl (fetch s)) symbols)"
  then have "\<not> isl (fetch s)" by simp
  then obtain pf where "fetch s = Inr pf" by (cases "fetch s") auto
  then show "scrape_stock_data fetch clock s = yahoo_record s (clock s) (projr (fetch s))"
    by (simp add: scrape_stock_data_success)
qed

lemma yahoo_record_symbol: "map_of (yahoo_record symbol stamp pf) ''symbol'' = Some (PStr symbol)"
  by (simp add: yahoo_record_def)

text \<open>
  Claim C2. When the fetch of every symbol of a batch fails, \<^verbatim>\<open>scrape_multiple_stocks\<close>
  returns \<^verbatim>\<open>None\<close>, and it does so in no other case: as soon as one symbol succeeds it
  returns a dataset. A dataset it returns is never empty, so the failure signal cannot
  be taken for a dataset of zero rows.
\<close>

theorem scrape_multiple_stocks_no_data:
  "(scrape_multiple_stocks fetch clock symbols = None
      \<longleftrightarrow> (\<forall>s \<in> set symbols. isl (fetch s)))
   \<and> scrape_multiple_stocks fetch clock symbols \<noteq> Some []"
  by (auto simp: scrape_multiple_stocks_def scrape_loop_filter Let_def filter_empty_conv)

theorem scrape_multiple_stocks_no_data_witness:
  "isl (demo_fetch ''MSFT'') \<and> isl (demo_fetch ''TSLA'')
   \<and> scrape_multiple_stocks demo_fetch demo_clock [''MSFT'', ''TSLA''] = None
   \<and> \<not> isl (demo_fetch ''AAPL'')
   \<and> scrape_multiple_stocks demo_fetch demo_clock [''MSFT'', ''AAPL''] \<noteq> None"
proof -
  have fails: "\<forall>s \<in> set [''MSFT'', ''TSLA'']. isl (demo_fetch s)"
    by (simp add: demo_fetch_def)
  have one_ok: "\<not> (\<forall>s \<in> set [''MSFT'', ''AAPL'']. isl (demo_fetch s))"
    by (simp add: demo_fetch_def)
  show ?thesis
    using fails one_ok
      scrape_multiple_stocks_no_data [of demo_fetch demo_clock "[''MSFT'', ''TSLA'']"]
      scrape_multiple_stocks_no_data [of demo_fetch demo_clock "[''MSFT'', ''AAPL'']"]
    by (simp add: demo_fetch_def)
qed

text \<open>
  Claim C3, as stated, fails: a symbol whose fetch fails gets no record at all. Of the
  two symbols attempted below only \<open>AAPL\<close> has a page; the dataset has one row and none
  for \<open>MSFT\<close>.
\<close>

theorem one_record_per_symbol_counterexample:
  "scrape_multiple_stocks demo_fetch demo_clock [''MSFT'', ''AAPL''] =
     Some [[(''symbol'', PStr ''AAPL''), (''source'', PStr ''yahoo''),
            (''current_price'', PFloat (Fin 150)), (''volume'', PStr ''1.2M''),
            (''timestamp'', PStr ''2024-01-01T00:00:00'')]]"
  by (simp add: scrape_multiple_stocks_def scrape_stock_data_def scrape_yahoo_finance_def
      yahoo_record_def demo_fetch_def demo_fields_def demo_clock_def opt_item_def
      has_key_def Let_def)

text \<open>
  Claim C3, amended. The raw dataset holds exactly one record for each symbol whose
  fetch succeeded, in the order of these symbols in the input, and nothing for a symbol
  whose fetch failed; each record carries its symbol. With no success at all there is
  no dataset.
\<close>

theorem scrape_multiple_stocks_successes_in_order:
  "scrape_multiple_stocks fetch clock symbols =
     (let ok = filter (\<lambda>s. \<not> isl (fetch s)) symbols in
      if ok = [] then None
      else Some (map (\<lambda>s. yahoo_record s (clock s) (projr (fetch s))) ok))
   \<and> map_option (map (\<lambda>r. map_of r ''symbol'')) (scrape_multiple_stocks fetch clock symbols) =
     (let ok = filter (\<lambda>s. \<not> isl (fetch s)) symbols in
      if ok = [] then None else Some (map (\<lambda>s. Some (PStr s)) ok))"
  by (simp add: scrape_multiple_stocks_def scrape_loop_filter Let_def
      map_scrape_stock_data_success yahoo_record_symbol comp_def)

end
